theory Spec2Isabelle
  imports Main "HOL-Library.Word" "HOL-Library.Sublist"
begin

section \<open>JavaScript values as the compiler wrapper sees them\<close>

text \<open>
  \<^verbatim>\<open>compiler.ts\<close> works on values of type \<^verbatim>\<open>any\<close> that come out of \<^verbatim>\<open>JSON.parse\<close>:
  the configuration object and the compiler's output. They are modelled as JSON values
  extended with \<^verbatim>\<open>undefined\<close>. An object is the list of its own properties in the runtime's
  enumeration order. Numbers are integers (the compiler's input and output hold no other
  numbers); strings are byte strings.
\<close>

datatype jsval =
    JUndefined
  | JNull
  | JBool bool
  | JNum int
  | JStr string
  | JArr "jsval list"
  | JObj "(string \<times> jsval) list"

text \<open>
  An exception thrown by the runtime or by a helper is a value; \<open>Error\<close> is an exception of
  the plain class \<^verbatim>\<open>Error\<close>. \<open>OutsideModel\<close> is not an exception of the program: it marks the inputs whose treatment depends on members inherited from the
  built-in prototypes or on helpers applied outside their declared type, which this
  development does not describe.
\<close>

datatype js_error = TypeError | SyntaxError | Error | OutsideModel

definition thenE :: "js_error + 'a \<Rightarrow> ('a \<Rightarrow> js_error + 'b) \<Rightarrow> js_error + 'b" where
  "thenE m f = (case m of Inl e \<Rightarrow> Inl e | Inr v \<Rightarrow> f v)"

fun truthy :: "jsval \<Rightarrow> bool" where
  "truthy JUndefined = False"
| "truthy JNull = False"
| "truthy (JBool b) = b"
| "truthy (JNum n) = (n \<noteq> 0)"
| "truthy (JStr s) = (s \<noteq> [])"
| "truthy (JArr xs) = True"
| "truthy (JObj kvs) = True"

text \<open>\<^verbatim>\<open>typeof v === 'object'\<close>: true of objects, arrays and \<^verbatim>\<open>null\<close>.\<close>

fun typeof_object :: "jsval \<Rightarrow> bool" where
  "typeof_object JNull = True"
| "typeof_object (JArr xs) = True"
| "typeof_object (JObj kvs) = True"
| "typeof_object v = False"

fun Array_isArray :: "jsval \<Rightarrow> bool" where
  "Array_isArray (JArr xs) = True"
| "Array_isArray v = False"

subsection \<open>Numbers and bytes as text\<close>

definition hex_digits :: string where
  "hex_digits = ''0123456789abcdef''"

fun show_nat :: "nat \<Rightarrow> string" where
  "show_nat n = (if n < 10 then [hex_digits ! n] else show_nat (n div 10) @ [hex_digits ! (n mod 10)])"

declare show_nat.simps [simp del]

definition show_int :: "int \<Rightarrow> string" where
  "show_int i = (if i < 0 then CHR ''-'' # show_nat (nat (- i)) else show_nat (nat i))"

type_synonym byte = "8 word"

definition hex_of_byte :: "byte \<Rightarrow> string" where
  "hex_of_byte b = [hex_digits ! (unat b div 16), hex_digits ! (unat b mod 16)]"

definition hex_of_bytes :: "byte list \<Rightarrow> string" where
  "hex_of_bytes bs = concat (map hex_of_byte bs)"

definition is_hex_string :: "string \<Rightarrow> bool" where
  "is_hex_string s = list_all (\<lambda>c. c \<in> set hex_digits) s"

subsection \<open>Property access\<close>

text \<open>The string members every object inherits from \<^verbatim>\<open>Object.prototype\<close>.\<close>

definition object_prototype_names :: "string list" where
  "object_prototype_names =
     [''constructor'', ''__defineGetter__'', ''__defineSetter__'', ''hasOwnProperty'',
      ''__lookupGetter__'', ''__lookupSetter__'', ''isPrototypeOf'', ''propertyIsEnumerable'',
      ''toString'', ''valueOf'', ''__proto__'', ''toLocaleString'']"

text \<open>
  Arrays, strings, numbers and booleans inherit members whose names vary with the version of
  the runtime; all of them are identifiers. A key that is not written like an identifier
  is certainly not inherited; one that is, and is neither an index nor \<^verbatim>\<open>length\<close>, is left
  outside the model.
\<close>

definition is_ident_char :: "char \<Rightarrow> bool" where
  "is_ident_char c =
     (let n = (of_char c :: nat)
      in (48 \<le> n \<and> n \<le> 57) \<or> (65 \<le> n \<and> n \<le> 90) \<or> (97 \<le> n \<and> n \<le> 122) \<or> n = 95 \<or> n = 36)"

definition identifier_like :: "string \<Rightarrow> bool" where
  "identifier_like k = (k \<noteq> [] \<and> list_all is_ident_char k)"

text \<open>The index a key denotes in an array of length \<open>n\<close>, when it denotes one.\<close>

definition array_index :: "string \<Rightarrow> nat \<Rightarrow> nat option" where
  "array_index k n = List.find (\<lambda>i. show_nat i = k) [0..<n]"

fun getProp :: "jsval \<Rightarrow> string \<Rightarrow> js_error + jsval" where
  "getProp JUndefined k = Inl TypeError"
| "getProp JNull k = Inl TypeError"
| "getProp (JObj kvs) k =
     (case map_of kvs k of
        Some v \<Rightarrow> Inr v
      | None \<Rightarrow> if k \<in> set object_prototype_names then Inl OutsideModel else Inr JUndefined)"
| "getProp (JArr xs) k =
     (case array_index k (length xs) of
        Some i \<Rightarrow> Inr (xs ! i)
      | None \<Rightarrow> if k = ''length'' then Inr (JNum (int (length xs)))
                else if identifier_like k then Inl OutsideModel else Inr JUndefined)"
| "getProp (JStr s) k =
     (case array_index k (length s) of
        Some i \<Rightarrow> Inr (JStr [s ! i])
      | None \<Rightarrow> if k = ''length'' then Inr (JNum (int (length s)))
                else if identifier_like k then Inl OutsideModel else Inr JUndefined)"
| "getProp (JNum n) k = (if identifier_like k then Inl OutsideModel else Inr JUndefined)"
| "getProp (JBool b) k = (if identifier_like k then Inl OutsideModel else Inr JUndefined)"

text \<open>
  \<^verbatim>\<open>k in v\<close>: own or inherited membership for an object or an array, a \<^verbatim>\<open>TypeError\<close> for
  anything that is not an object.
\<close>

fun js_in :: "string \<Rightarrow> jsval \<Rightarrow> js_error + bool" where
  "js_in k (JObj kvs) = Inr (k \<in> set (map fst kvs) \<or> k \<in> set object_prototype_names)"
| "js_in k (JArr xs) =
     (if array_index k (length xs) \<noteq> None \<or> k = ''length'' then Inr True
      else if identifier_like k then Inl OutsideModel else Inr False)"
| "js_in k v = Inl TypeError"

text \<open>\<^verbatim>\<open>Object.entries\<close> and \<^verbatim>\<open>Object.values\<close>.\<close>

fun Object_entries :: "jsval \<Rightarrow> js_error + (string \<times> jsval) list" where
  "Object_entries JUndefined = Inl TypeError"
| "Object_entries JNull = Inl TypeError"
| "Object_entries (JObj kvs) = Inr kvs"
| "Object_entries (JArr xs) = Inr (zip (map show_nat [0..<length xs]) xs)"
| "Object_entries (JStr s) = Inr (zip (map show_nat [0..<length s]) (map (\<lambda>c. JStr [c]) s))"
| "Object_entries (JNum n) = Inr []"
| "Object_entries (JBool b) = Inr []"

definition Object_values :: "jsval \<Rightarrow> js_error + jsval list" where
  "Object_values v = thenE (Object_entries v) (\<lambda>es. Inr (map snd es))"

text \<open>Assignment to, and deletion of, an own property of an object.\<close>

fun setKey :: "(string \<times> jsval) list \<Rightarrow> string \<Rightarrow> jsval \<Rightarrow> (string \<times> jsval) list" where
  "setKey [] k v = [(k, v)]"
| "setKey ((k', v') # kvs) k v = (if k' = k then (k, v) # kvs else (k', v') # setKey kvs k v)"

definition deleteKey :: "(string \<times> jsval) list \<Rightarrow> string \<Rightarrow> (string \<times> jsval) list" where
  "deleteKey kvs k = filter (\<lambda>(k', v). k' \<noteq> k) kvs"

section \<open>The transpiler and its results\<close>

text \<open>
  \<^verbatim>\<open>TranspilationError\<close>, \<^verbatim>\<open>SuccessfulTranspilation\<close>, \<^verbatim>\<open>ErroredTranspilation\<close> and the
  \<^verbatim>\<open>Transpiler\<close> interface are imported by \<^verbatim>\<open>compiler.ts\<close>. A transpiler is a parameter
  of everything below: a pair of functions from byte buffers to results.
\<close>

record TranspilationError =
  index :: nat
  message :: string

datatype TranspilationResult =
    SuccessfulTranspilation "byte list"
  | ErroredTranspilation "TranspilationError list"

record Transpiler =
  transpile :: "byte list \<Rightarrow> byte list \<Rightarrow> nat \<Rightarrow> TranspilationResult"
  transpileRawBytecode :: "byte list \<Rightarrow> TranspilationResult"

text \<open>The interface \<^verbatim>\<open>TranspilationOutput\<close>; an absent field is \<^verbatim>\<open>undefined\<close>.\<close>

record TranspilationOutput =
  bytecode :: jsval
  deployedBytecode :: jsval
  errors :: jsval

section \<open>Solc-formatted errors\<close>

definition solcError :: "string \<Rightarrow> string \<Rightarrow> string \<Rightarrow> string \<Rightarrow> jsval" where
  "solcError component msg severity type =
     JObj [(''component'', JStr component),
           (''formattedMessage'', JStr msg),
           (''message'', JStr msg),
           (''severity'', JStr severity),
           (''type'', JStr type)]"

definition transpilerErrorMessage :: "string \<Rightarrow> string \<Rightarrow> bool \<Rightarrow> TranspilationError \<Rightarrow> string" where
  "transpilerErrorMessage file contract isDeployedBytecode x =
     file @ '':'' @ contract @ '' error ['' @ message x @ ''] at index '' @ show_nat (index x)
       @ '' of '' @ (if isDeployedBytecode then ''deployed bytecode'' else ''bytecode'')"

definition getSolcErrorsFromTranspilerErrors ::
  "TranspilationError list \<Rightarrow> string \<Rightarrow> string \<Rightarrow> bool \<Rightarrow> jsval list" where
  "getSolcErrorsFromTranspilerErrors transpilationErrors file contract isDeployedBytecode =
     map (\<lambda>x. solcError ''general'' (transpilerErrorMessage file contract isDeployedBytecode x)
                 ''error'' ''CompilerError'')
       transpilationErrors"

section \<open>Helpers of \<^verbatim>\<open>core-utils\<close> and the runtime\<close>

text \<open>
  Modelled from the spec: \<^verbatim>\<open>remove0x\<close> and \<^verbatim>\<open>bufToHexString\<close> are imported from
  \<^verbatim>\<open>core-utils\<close> and are not among the sources. The specification says of the bytecode
  written back that it is "hex, no leading prefix": \<^verbatim>\<open>bufToHexString\<close> renders a buffer as
  prefixed lower-case hexadecimal text and \<^verbatim>\<open>remove0x\<close> drops a leading \<^verbatim>\<open>0x\<close>.
\<close>

definition remove0x :: "string \<Rightarrow> string" where
  "remove0x str = (if prefix ''0x'' str then drop 2 str else str)"

definition bufToHexString :: "byte list \<Rightarrow> string" where
  "bufToHexString buf = ''0x'' @ hex_of_bytes buf"

text \<open>
  What \<^verbatim>\<open>compiler.ts\<close> takes from outside: the runtime's \<^verbatim>\<open>JSON.parse\<close> (\<open>None\<close> when it
  throws) and \<^verbatim>\<open>JSON.stringify\<close>, the compiler \<^verbatim>\<open>solc.compile\<close> with its optional callbacks,
  \<^verbatim>\<open>isValidHexAddress\<close> and \<^verbatim>\<open>hexStrToBuf\<close> of \<^verbatim>\<open>core-utils\<close>, the construction
  \<^verbatim>\<open>new TranspilerImpl(new OpcodeWhitelistImpl(), new OpcodeReplacerImpl(address))\<close>, and
  the environment variable \<^verbatim>\<open>EXECUTION_MANAGER_ADDRESS\<close>. \<^verbatim>\<open>hexStrToBuf\<close> returns the bytes of
  a hexadecimal text or throws; \<^verbatim>\<open>compiler.ts\<close> calls it outside every \<^verbatim>\<open>try\<close>, so what it throws
  leaves \<^verbatim>\<open>compile\<close>.
\<close>

type_synonym decoder = "string \<Rightarrow> js_error + byte list"

record 'cb collaborators =
  JSON_parse :: "string \<Rightarrow> jsval option"
  JSON_stringify :: "jsval \<Rightarrow> string"
  solc_compile :: "string \<Rightarrow> 'cb option \<Rightarrow> string"
  isValidHexAddress :: "string \<Rightarrow> bool"
  hexStrToBuf :: decoder
  TranspilerImpl :: "jsval \<Rightarrow> Transpiler"
  EXECUTION_MANAGER_ADDRESS :: "string option"

text \<open>The helpers are declared on strings; applied to anything else they are outside the model.\<close>

definition onString :: "(string \<Rightarrow> 'a) \<Rightarrow> jsval \<Rightarrow> js_error + 'a" where
  "onString f v = (case v of JStr s \<Rightarrow> Inr (f s) | _ \<Rightarrow> Inl OutsideModel)"

definition onStringE :: "(string \<Rightarrow> js_error + 'a) \<Rightarrow> jsval \<Rightarrow> js_error + 'a" where
  "onStringE f v = (case v of JStr s \<Rightarrow> f s | _ \<Rightarrow> Inl OutsideModel)"

text \<open>\<^verbatim>\<open>v || ''\<close>\<close>

definition orEmpty :: "jsval \<Rightarrow> jsval" where
  "orEmpty v = (if truthy v then v else JStr [])"

text \<open>
  \<^verbatim>\<open>try { return e } catch (e) { return undefined }\<close>: every exception becomes \<^verbatim>\<open>undefined\<close>.
  What is outside the model stays outside.
\<close>

definition catchUndefined :: "js_error + jsval \<Rightarrow> js_error + jsval" where
  "catchUndefined m =
     (case m of
        Inr v \<Rightarrow> Inr v
      | Inl OutsideModel \<Rightarrow> Inl OutsideModel
      | Inl e \<Rightarrow> Inr JUndefined)"

text \<open>
  \<^verbatim>\<open>code.split(sep)[0]\<close> for strings: the text before the first occurrence of a non-empty
  separator, the first character for the empty one.
\<close>

fun before_first :: "string \<Rightarrow> string \<Rightarrow> string" where
  "before_first sep [] = []"
| "before_first sep (c # cs) = (if prefix sep (c # cs) then [] else c # before_first sep cs)"

definition split_first :: "string \<Rightarrow> string \<Rightarrow> jsval" where
  "split_first code sep =
     (if sep = [] then (case code of [] \<Rightarrow> JUndefined | c # cs \<Rightarrow> JStr [c])
      else JStr (before_first sep code))"

text \<open>
  \<^verbatim>\<open>code.split(auxData)[0]\<close> on values: only a string has a \<^verbatim>\<open>split\<close> method; a separator
  that is not a string would be converted to one, which is not modelled.
\<close>

definition js_split_first :: "jsval \<Rightarrow> jsval \<Rightarrow> js_error + jsval" where
  "js_split_first code auxData =
     (case code of
        JStr s \<Rightarrow> (case auxData of JStr a \<Rightarrow> Inr (split_first s a) | _ \<Rightarrow> Inl OutsideModel)
      | _ \<Rightarrow> Inl TypeError)"

text \<open>Assignment \<^verbatim>\<open>o[k] = v\<close> and in-place change of the value held in \<^verbatim>\<open>o[k]\<close>.\<close>

definition assignProp :: "jsval \<Rightarrow> string \<Rightarrow> jsval \<Rightarrow> js_error + jsval" where
  "assignProp o' k v =
     (case o' of
        JObj kvs \<Rightarrow> Inr (JObj (setKey kvs k v))
      | JUndefined \<Rightarrow> Inl TypeError
      | JNull \<Rightarrow> Inl TypeError
      | _ \<Rightarrow> Inl OutsideModel)"

definition updateProp :: "jsval \<Rightarrow> string \<Rightarrow> (jsval \<Rightarrow> js_error + jsval) \<Rightarrow> js_error + jsval" where
  "updateProp o' k f =
     thenE (getProp o' k) (\<lambda>v. thenE (f v) (\<lambda>v'. assignProp o' k v'))"

text \<open>
  \<^verbatim>\<open>for (const [k, v] of Object.entries(o)) { ... o[k] ... }\<close>: the body sees each entry and
  may change the value held under its key, and a state is threaded through. A body that
  throws ends the loop.
\<close>

fun foldEntries ::
  "('s \<Rightarrow> string \<Rightarrow> jsval \<Rightarrow> js_error + ('s \<times> jsval)) \<Rightarrow> 's \<Rightarrow> (string \<times> jsval) list
     \<Rightarrow> js_error + ('s \<times> (string \<times> jsval) list)" where
  "foldEntries body s [] = Inr (s, [])"
| "foldEntries body s ((k, v) # es) =
     (case body s k v of
        Inl e \<Rightarrow> Inl e
      | Inr (s1, v') \<Rightarrow>
          (case foldEntries body s1 es of
             Inl e \<Rightarrow> Inl e
           | Inr (s2, es') \<Rightarrow> Inr (s2, (k, v') # es')))"

fun rebuild :: "jsval \<Rightarrow> (string \<times> jsval) list \<Rightarrow> js_error + jsval" where
  "rebuild (JObj kvs) es = Inr (JObj es)"
| "rebuild (JArr xs) es = Inr (JArr (map snd es))"
| "rebuild (JStr s) es = (if s = [] then Inr (JStr s) else Inl OutsideModel)"
| "rebuild v es = Inr v"

definition overEntries ::
  "('s \<Rightarrow> string \<Rightarrow> jsval \<Rightarrow> js_error + ('s \<times> jsval)) \<Rightarrow> 's \<Rightarrow> jsval \<Rightarrow> js_error + ('s \<times> jsval)" where
  "overEntries body s v =
     thenE (Object_entries v) (\<lambda>es.
     thenE (foldEntries body s es) (\<lambda>(s', es').
     thenE (rebuild v es') (\<lambda>v'. Inr (s', v'))))"

text \<open>The same loop without a state.\<close>

definition mapEntries :: "(string \<Rightarrow> jsval \<Rightarrow> js_error + jsval) \<Rightarrow> jsval \<Rightarrow> js_error + jsval" where
  "mapEntries body v =
     thenE (overEntries (\<lambda>u k x. thenE (body k x) (\<lambda>x'. Inr (u, x'))) () v) (\<lambda>(u, v'). Inr v')"

section \<open>Bytecode of one contract\<close>

definition getAuxData :: "jsval \<Rightarrow> js_error + jsval" where
  "getAuxData contractSolcOutput =
     catchUndefined
       (thenE (getProp contractSolcOutput ''evm'') (\<lambda>evm.
        thenE (getProp evm ''legacyAssembly'') (\<lambda>legacyAssembly.
        thenE (getProp legacyAssembly ''.data'') (\<lambda>dat.
        thenE (getProp dat ''0'') (\<lambda>zero.
        getProp zero ''.auxdata'')))))"

text \<open>\<^verbatim>\<open>contractSolcOutput.evm.<field>.object\<close>\<close>

definition readObject :: "jsval \<Rightarrow> string \<Rightarrow> js_error + jsval" where
  "readObject contractSolcOutput field =
     thenE (getProp contractSolcOutput ''evm'') (\<lambda>evm.
     thenE (getProp evm field) (\<lambda>bc.
     getProp bc ''object''))"

definition getBytecode :: "jsval \<Rightarrow> bool \<Rightarrow> js_error + jsval" where
  "getBytecode contractSolcOutput isDeployedBytecode =
     catchUndefined
       (thenE (readObject contractSolcOutput
                 (if isDeployedBytecode then ''deployedBytecode'' else ''bytecode'')) (\<lambda>code.
        thenE (getAuxData contractSolcOutput) (\<lambda>auxData.
        if truthy auxData then js_split_first code auxData else Inr code)))"

text \<open>
  \<^verbatim>\<open>return contractSolcOutput\<close> from a function whose result is read through the interface
  \<^verbatim>\<open>TranspilationOutput\<close>.
\<close>

definition asTranspilationOutput :: "jsval \<Rightarrow> js_error + TranspilationOutput" where
  "asTranspilationOutput v =
     thenE (getProp v ''bytecode'') (\<lambda>b.
     thenE (getProp v ''deployedBytecode'') (\<lambda>d.
     thenE (getProp v ''errors'') (\<lambda>e.
     Inr \<lparr>bytecode = b, deployedBytecode = d, errors = e\<rparr>)))"

definition erroredOutput :: "jsval list \<Rightarrow> TranspilationOutput" where
  "erroredOutput errs = \<lparr>bytecode = JUndefined, deployedBytecode = JUndefined, errors = JArr errs\<rparr>"

text \<open>
  The second half of \<^verbatim>\<open>transpileContract\<close>, from \<^verbatim>\<open>if (!!deployedBytecode)\<close> to the final
  \<^verbatim>\<open>return\<close>; \<open>bytecode\<close> is the constructor bytecode as the first half left it.
\<close>

definition transpileDeployed ::
  "decoder \<Rightarrow> Transpiler \<Rightarrow> jsval \<Rightarrow> jsval \<Rightarrow> string \<Rightarrow> string
     \<Rightarrow> js_error + TranspilationOutput" where
  "transpileDeployed toBuf transpiler bytecode' deployedBytecode' filename contractName =
     (if truthy deployedBytecode' then
        thenE (onStringE toBuf deployedBytecode') (\<lambda>d.
        case transpileRawBytecode transpiler d of
          ErroredTranspilation errs \<Rightarrow>
            Inr (erroredOutput (getSolcErrorsFromTranspilerErrors errs filename contractName True))
        | SuccessfulTranspilation out \<Rightarrow>
            Inr \<lparr>bytecode = bytecode', deployedBytecode = JStr (bufToHexString out),
                 errors = JUndefined\<rparr>)
      else Inr \<lparr>bytecode = bytecode', deployedBytecode = deployedBytecode', errors = JUndefined\<rparr>)"

definition transpileContract ::
  "decoder \<Rightarrow> Transpiler \<Rightarrow> jsval \<Rightarrow> string \<Rightarrow> string
     \<Rightarrow> js_error + TranspilationOutput" where
  "transpileContract toBuf transpiler contractSolcOutput filename contractName =
     thenE (readObject contractSolcOutput ''bytecode'') (\<lambda>obj.
     thenE (onStringE toBuf obj) (\<lambda>buf.
     let originalBytecodeSize = length buf in
     thenE (getBytecode contractSolcOutput False) (\<lambda>bytecode'.
     thenE (getBytecode contractSolcOutput True) (\<lambda>deployedBytecode'.
     if \<not> truthy bytecode' \<and> \<not> truthy deployedBytecode' then
       asTranspilationOutput contractSolcOutput
     else if truthy bytecode' then
       thenE (onStringE toBuf bytecode') (\<lambda>b.
       thenE (onStringE toBuf deployedBytecode') (\<lambda>d.
       case transpile transpiler b d originalBytecodeSize of
         ErroredTranspilation errs \<Rightarrow>
           Inr (erroredOutput (getSolcErrorsFromTranspilerErrors errs filename contractName False))
       | SuccessfulTranspilation out \<Rightarrow>
           transpileDeployed toBuf transpiler (JStr (bufToHexString out)) deployedBytecode'
             filename contractName))
     else
       transpileDeployed toBuf transpiler bytecode' deployedBytecode' filename contractName))))"

section \<open>The loop of \<^verbatim>\<open>compile\<close> over the compiled contracts\<close>

text \<open>
  \<^verbatim>\<open>res.contracts[filename][contractName].evm.<field>.object = v\<close>, where
  \<^verbatim>\<open>res.contracts[filename][contractName]\<close> is the contract the loop is visiting.
\<close>

definition assignObject :: "jsval \<Rightarrow> string \<Rightarrow> jsval \<Rightarrow> js_error + jsval" where
  "assignObject contractJson field v =
     updateProp contractJson ''evm'' (\<lambda>evm.
       updateProp evm field (\<lambda>bc. assignProp bc ''object'' v))"

text \<open>The spread \<^verbatim>\<open>...v\<close> of a value into arguments.\<close>

definition spread :: "jsval \<Rightarrow> js_error + jsval list" where
  "spread v =
     (case v of
        JArr xs \<Rightarrow> Inr xs
      | JStr s \<Rightarrow> Inr (map (\<lambda>c. JStr [c]) s)
      | _ \<Rightarrow> Inl TypeError)"

text \<open>
  \<^verbatim>\<open>if (!!output.errors) { if (!res.errors) { res.errors = [] }; res.errors.push(...output.errors) }\<close>
\<close>

definition pushErrors :: "jsval \<Rightarrow> jsval \<Rightarrow> js_error + jsval" where
  "pushErrors res outputErrors =
     (if truthy outputErrors then
        thenE (getProp res ''errors'') (\<lambda>e.
        thenE (if \<not> truthy e then assignProp res ''errors'' (JArr []) else Inr res) (\<lambda>res1.
        thenE (getProp res1 ''errors'') (\<lambda>e1.
        thenE (spread outputErrors) (\<lambda>ys.
        case e1 of
          JArr xs \<Rightarrow> assignProp res1 ''errors'' (JArr (xs @ ys))
        | _ \<Rightarrow> Inl TypeError))))
      else Inr res)"

text \<open>
  The four assignments of the loop body: both fields are written, then both are written again
  with the same values.
\<close>

definition writeBack :: "jsval \<Rightarrow> TranspilationOutput \<Rightarrow> js_error + jsval" where
  "writeBack contractJson output =
     thenE (onString remove0x (orEmpty (bytecode output))) (\<lambda>b1.
     thenE (assignObject contractJson ''bytecode'' (JStr b1)) (\<lambda>c1.
     thenE (onString remove0x (orEmpty (deployedBytecode output))) (\<lambda>d1.
     thenE (assignObject c1 ''deployedBytecode'' (JStr d1)) (\<lambda>c2.
     thenE (onString remove0x (orEmpty (bytecode output))) (\<lambda>b2.
     thenE (assignObject c2 ''bytecode'' (JStr b2)) (\<lambda>c3.
     thenE (onString remove0x (orEmpty (deployedBytecode output))) (\<lambda>d2.
     assignObject c3 ''deployedBytecode'' (JStr d2))))))))"

text \<open>
  The body of the inner loop, for the contract \<open>contractJson\<close> found under \<open>contractName\<close> in
  the file \<open>filename\<close>: the new value of \<^verbatim>\<open>res\<close> (its \<^verbatim>\<open>errors\<close>) and of the contract.
\<close>

definition compileContract ::
  "decoder \<Rightarrow> Transpiler \<Rightarrow> string \<Rightarrow> jsval \<Rightarrow> string \<Rightarrow> jsval
     \<Rightarrow> js_error + (jsval \<times> jsval)" where
  "compileContract toBuf transpiler filename res contractName contractJson =
     thenE (transpileContract toBuf transpiler contractJson filename contractName) (\<lambda>output.
     thenE (writeBack contractJson output) (\<lambda>contractJson'.
     thenE (pushErrors res (errors output)) (\<lambda>res'.
     Inr (res', contractJson'))))"

definition compileFile ::
  "decoder \<Rightarrow> Transpiler \<Rightarrow> jsval \<Rightarrow> string \<Rightarrow> jsval \<Rightarrow> js_error + (jsval \<times> jsval)" where
  "compileFile toBuf transpiler res filename fileJson =
     overEntries (compileContract toBuf transpiler filename) res fileJson"

text \<open>Lines 74 to 108: the two nested iterations, and \<^verbatim>\<open>res\<close> with its contracts and errors afterwards.\<close>

definition transpileContracts ::
  "decoder \<Rightarrow> Transpiler \<Rightarrow> jsval \<Rightarrow> js_error + jsval" where
  "transpileContracts toBuf transpiler res =
     thenE (getProp res ''contracts'') (\<lambda>contracts.
     thenE (overEntries (compileFile toBuf transpiler) res contracts) (\<lambda>(res', contracts').
     assignProp res' ''contracts'' contracts'))"

section \<open>Input validation and the compiler's configuration\<close>

definition getExecutionManagerAddress :: "string option \<Rightarrow> jsval \<Rightarrow> js_error + jsval" where
  "getExecutionManagerAddress env configObject =
     thenE (getProp configObject ''settings'') (\<lambda>settings.
     thenE (getProp settings ''executionManagerAddress'') (\<lambda>a.
     Inr (if truthy a then a else (case env of Some e \<Rightarrow> JStr e | None \<Rightarrow> JUndefined))))"

definition formattedSolcError :: "string \<Rightarrow> jsval" where
  "formattedSolcError msg = JObj [(''errors'', JArr [solcError ''general'' msg ''error'' ''JSONError''])]"

definition getFormattedSolcErrorOutput :: "(jsval \<Rightarrow> string) \<Rightarrow> string \<Rightarrow> string" where
  "getFormattedSolcErrorOutput stringify msg = stringify (formattedSolcError msg)"

definition settingsMessage :: string where
  "settingsMessage = ''Input must include \"settings\" object in top-level object.''"

definition addressMessage :: string where
  "addressMessage = ''Input must include \"executionManagerAddress\" field in the \"settings\" object or there must be an \"EXECUTION_MANAGER_ADDRESS\" environment variable, and it must be a valid Ethereum address as a hex string (case insensitive).''"

definition populatedMessage :: string where
  "populatedMessage = ''Input must include a populated \"outputSelection\" object in \"settings\"''"

definition formMessage :: string where
  "formMessage = ''\"outputSelection\" configuration in \"settings\" must be of the form: { \"filename\": { \"contractName\": [] }, ... }''"

text \<open>
  The loop of \<^verbatim>\<open>getInputErrors\<close> over the entries of \<^verbatim>\<open>outputSelection\<close>: the message to
  return, if any.
\<close>

fun checkOutputSelection :: "jsval \<Rightarrow> (string \<times> jsval) list \<Rightarrow> js_error + string option" where
  "checkOutputSelection outputSelection [] = Inr None"
| "checkOutputSelection outputSelection ((filename, fileConfig) # es) =
     (if \<not> typeof_object fileConfig \<or> Array_isArray fileConfig then Inr (Some formMessage)
      else
        (case thenE (getProp outputSelection filename) Object_values of
           Inl e \<Rightarrow> Inl e
         | Inr contractConfigs \<Rightarrow>
             if list_all Array_isArray contractConfigs
             then checkOutputSelection outputSelection es
             else Inr (Some formMessage)))"

definition getInputErrors :: "'cb collaborators \<Rightarrow> jsval \<Rightarrow> js_error + string option" where
  "getInputErrors D configObject =
     thenE (getProp configObject ''settings'') (\<lambda>settings.
     if \<not> truthy settings \<or> \<not> typeof_object settings then
       Inr (Some (getFormattedSolcErrorOutput (JSON_stringify D) settingsMessage))
     else
       thenE (getExecutionManagerAddress (EXECUTION_MANAGER_ADDRESS D) configObject) (\<lambda>executionManagerAddress.
       thenE (if truthy executionManagerAddress
              then onString (isValidHexAddress D) executionManagerAddress else Inr False) (\<lambda>valid.
       if \<not> valid then
         Inr (Some (getFormattedSolcErrorOutput (JSON_stringify D) addressMessage))
       else
         thenE (getProp settings ''outputSelection'') (\<lambda>outputSelection.
         thenE (if truthy outputSelection \<and> typeof_object outputSelection
                then thenE (Object_entries outputSelection) (\<lambda>es. Inr (es \<noteq> []))
                else Inr False) (\<lambda>populated.
         if \<not> populated then
           Inr (Some (getFormattedSolcErrorOutput (JSON_stringify D) populatedMessage))
         else
           thenE (Object_entries outputSelection) (\<lambda>es.
           thenE (checkOutputSelection outputSelection es) (\<lambda>r.
           Inr (map_option (getFormattedSolcErrorOutput (JSON_stringify D)) r))))))))"

text \<open>\<^verbatim>\<open>x.toLowerCase()\<close>, on the letters A to Z.\<close>

definition toLowerCase :: "string \<Rightarrow> string" where
  "toLowerCase s =
     map (\<lambda>c. let n = (of_char c :: nat) in if 65 \<le> n \<and> n \<le> 90 then char_of (n + 32) else c) s"

fun mapToLowerCase :: "jsval list \<Rightarrow> js_error + jsval list" where
  "mapToLowerCase [] = Inr []"
| "mapToLowerCase (x # xs) =
     (case x of
        JStr s \<Rightarrow> (case mapToLowerCase xs of Inl e \<Rightarrow> Inl e | Inr ys \<Rightarrow> Inr (JStr (toLowerCase s) # ys))
      | _ \<Rightarrow> Inl TypeError)"

text \<open>The body of the inner loop of \<^verbatim>\<open>getSolcConfig\<close>.\<close>

definition addLegacyAssembly :: "string \<Rightarrow> jsval \<Rightarrow> js_error + jsval" where
  "addLegacyAssembly contractName contractConfig =
     (case contractConfig of
        JArr xs \<Rightarrow>
          thenE (mapToLowerCase xs) (\<lambda>lowerConfig.
          thenE (js_in ''evm.legacyAssembly'' (JArr lowerConfig)) (\<lambda>a.
          if a then Inr contractConfig
          else thenE (js_in ''*'' (JArr lowerConfig)) (\<lambda>b.
               if b then Inr contractConfig
               else Inr (JArr (xs @ [JStr ''evm.legacyAssembly''])))))
      | _ \<Rightarrow> Inl TypeError)"

text \<open>
  \<^verbatim>\<open>getSolcConfig\<close> before the final \<^verbatim>\<open>JSON.stringify\<close>. The deep clone
  \<^verbatim>\<open>JSON.parse(JSON.stringify(config))\<close> is the identity on values.
\<close>

definition solcConfigObject :: "jsval \<Rightarrow> js_error + jsval" where
  "solcConfigObject config =
     updateProp config ''settings'' (\<lambda>settings.
       (case settings of
          JObj kvs \<Rightarrow>
            updateProp (JObj (deleteKey kvs ''executionManagerAddress'')) ''outputSelection''
              (mapEntries (\<lambda>filename. mapEntries addLegacyAssembly))
        | JUndefined \<Rightarrow> Inl TypeError
        | JNull \<Rightarrow> Inl TypeError
        | _ \<Rightarrow> Inl OutsideModel))"

definition getSolcConfig :: "'cb collaborators \<Rightarrow> jsval \<Rightarrow> js_error + string" where
  "getSolcConfig D config = thenE (solcConfigObject config) (\<lambda>c. Inr (JSON_stringify D c))"

section \<open>Formatting the output\<close>

text \<open>\<^verbatim>\<open>delete contract.evm.legacyAssembly\<close>\<close>

definition deleteLegacyAssembly :: "jsval \<Rightarrow> js_error + jsval" where
  "deleteLegacyAssembly contractObj =
     thenE (getProp contractObj ''evm'') (\<lambda>evm.
       case evm of
         JObj ekvs \<Rightarrow> assignProp contractObj ''evm'' (JObj (deleteKey ekvs ''legacyAssembly''))
       | JUndefined \<Rightarrow> Inl TypeError
       | JNull \<Rightarrow> Inl TypeError
       | _ \<Rightarrow> Inr contractObj)"

text \<open>The body of the inner loop of \<^verbatim>\<open>formatOutput\<close>.\<close>

definition formatContract :: "jsval \<Rightarrow> string \<Rightarrow> string \<Rightarrow> jsval \<Rightarrow> js_error + jsval" where
  "formatContract inputConfig filename contractName contractObj =
     thenE (getProp inputConfig ''settings'') (\<lambda>settings.
     thenE (getProp settings ''outputSelection'') (\<lambda>outputSelection.
     thenE (js_in filename outputSelection) (\<lambda>inFile.
     let filenameConfig = (if inFile then filename else ''*'') in
     thenE (getProp outputSelection filenameConfig) (\<lambda>fileConfig.
     thenE (js_in contractName fileConfig) (\<lambda>inContract.
     let contractNameConfig = (if inContract then contractName else ''*'') in
     thenE (getProp fileConfig contractNameConfig) (\<lambda>outputConfig.
     thenE (js_in ''evm.legacyAssembly'' outputConfig) (\<lambda>a.
     if a then Inr contractObj
     else thenE (js_in ''*'' outputConfig) (\<lambda>b.
          if b then Inr contractObj else deleteLegacyAssembly contractObj))))))))"

text \<open>\<^verbatim>\<open>formatOutput\<close> before the final \<^verbatim>\<open>JSON.stringify\<close>, and with it.\<close>

definition formattedOutput :: "jsval \<Rightarrow> jsval \<Rightarrow> js_error + jsval" where
  "formattedOutput transpiledOutput inputConfig =
     updateProp transpiledOutput ''contracts''
       (mapEntries (\<lambda>filename. mapEntries (formatContract inputConfig filename)))"

definition formatOutput :: "'cb collaborators \<Rightarrow> jsval \<Rightarrow> jsval \<Rightarrow> js_error + string" where
  "formatOutput D transpiledOutput inputConfig =
     thenE (formattedOutput transpiledOutput inputConfig) (\<lambda>out. Inr (JSON_stringify D out))"

section \<open>The entry point\<close>

text \<open>
  \<^verbatim>\<open>'errors' in res && !!res.errors && !!res.errors.filter((x) => x.severity === 'error').length\<close>
\<close>

fun filterSeverityError :: "jsval list \<Rightarrow> js_error + jsval list" where
  "filterSeverityError [] = Inr []"
| "filterSeverityError (x # xs) =
     (case getProp x ''severity'' of
        Inl e \<Rightarrow> Inl e
      | Inr sev \<Rightarrow>
          (case filterSeverityError xs of
             Inl e \<Rightarrow> Inl e
           | Inr ys \<Rightarrow> Inr (if sev = JStr ''error'' then x # ys else ys)))"

definition hasSolcErrors :: "jsval \<Rightarrow> js_error + bool" where
  "hasSolcErrors res =
     thenE (js_in ''errors'' res) (\<lambda>present.
     if \<not> present then Inr False
     else thenE (getProp res ''errors'') (\<lambda>e.
          if \<not> truthy e then Inr False
          else (case e of
                  JArr xs \<Rightarrow> thenE (filterSeverityError xs) (\<lambda>ys. Inr (ys \<noteq> []))
                | _ \<Rightarrow> Inl TypeError)))"

text \<open>\<^verbatim>\<open>compile\<close> from line 54 on, for a configuration that passed validation.\<close>

definition compileValidated :: "'cb collaborators \<Rightarrow> jsval \<Rightarrow> 'cb option \<Rightarrow> js_error + string" where
  "compileValidated D json callbacks =
     thenE (getSolcConfig D json) (\<lambda>solcConfig.
     let resString = solc_compile D solcConfig callbacks in
     (case JSON_parse D resString of
        None \<Rightarrow> Inl SyntaxError
      | Some res \<Rightarrow>
          thenE (hasSolcErrors res) (\<lambda>failed.
          if failed then Inr resString
          else
            thenE (getExecutionManagerAddress (EXECUTION_MANAGER_ADDRESS D) json) (\<lambda>address.
            let transpiler = TranspilerImpl D address in
            thenE (transpileContracts (hexStrToBuf D) transpiler res) (\<lambda>res'.
            formatOutput D res' json)))))"

definition compile :: "'cb collaborators \<Rightarrow> string \<Rightarrow> 'cb option \<Rightarrow> js_error + string" where
  "compile D configJsonString callbacks =
     (case JSON_parse D configJsonString of
        None \<Rightarrow> Inr (solc_compile D configJsonString None)
      | Some json \<Rightarrow>
          thenE (getInputErrors D json) (\<lambda>inputErrors.
          case inputErrors of
            Some e \<Rightarrow> if e \<noteq> [] then Inr e else compileValidated D json callbacks
          | None \<Rightarrow> compileValidated D json callbacks))"

section \<open>The opcode whitelist mask\<close>

definition DEFAULT_OPCODE_WHITELIST_MASK :: string where
  "DEFAULT_OPCODE_WHITELIST_MASK =
     ''0x600a0000000000000000001fffffffffffffffff0fcf000063f000013fff0fff''"

text \<open>The number of bits a hexadecimal text encodes, four for each digit.\<close>

definition is_hex_char :: "char \<Rightarrow> bool" where
  "is_hex_char c = (c \<in> set ''0123456789abcdefABCDEF'')"

definition mask_bits :: "string \<Rightarrow> nat option" where
  "mask_bits maskText =
     (let digits = remove0x maskText
      in if list_all is_hex_char digits then Some (4 * length digits) else None)"

text \<open>
  Modelled from the spec: the code that reads a \<^verbatim>\<open>whitelistMask\<close> from the configuration
  is not among the sources (\<^verbatim>\<open>compile\<close> constructs \<^verbatim>\<open>OpcodeWhitelistImpl\<close> without
  arguments). The specification gives the option as "\<^verbatim>\<open>whitelistMask\<close> (optional, defaults to
  a fixed built-in 256-bit mask)" with the invariant "mask length is always exactly 256
  bits; any other length is a configuration error".
\<close>

datatype config_error = MaskLengthError

definition resolveWhitelistMask :: "string option \<Rightarrow> config_error + string" where
  "resolveWhitelistMask whitelistMask =
     (let maskText = (case whitelistMask of None \<Rightarrow> DEFAULT_OPCODE_WHITELIST_MASK | Some m \<Rightarrow> m)
      in if mask_bits maskText = Some 256 then Inr maskText else Inl MaskLengthError)"

section \<open>Example data\<close>

text \<open>
  A contract as the compiler reports it, with a metadata trailer \<^verbatim>\<open>a165\<close> at the end of
  both bytecodes, and the same contract compiled without the assembly output.
\<close>

definition exampleContract :: jsval where
  "exampleContract =
     JObj [(''abi'', JArr []),
           (''evm'', JObj
              [(''bytecode'', JObj [(''object'', JStr ''6001a165'')]),
               (''deployedBytecode'', JObj [(''object'', JStr ''01a165'')]),
               (''legacyAssembly'', JObj
                  [(''.data'', JObj [(''0'', JObj [(''.auxdata'', JStr ''a165'')])])])])]"


text \<open>
  An instance of \<^verbatim>\<open>hexStrToBuf\<close> for the examples: two hexadecimal digits to the byte,
  after an optional \<^verbatim>\<open>0x\<close>; a text with another character, or with an odd number of
  digits, is refused with an \<^verbatim>\<open>Error\<close>.
\<close>

definition hex_value :: "char \<Rightarrow> nat option" where
  "hex_value c = List.find (\<lambda>i. hex_digits ! i = c) [0..<16]"

fun hexDecode :: decoder where
  "hexDecode [] = Inr []"
| "hexDecode [a] = Inl Error"
| "hexDecode (a # b # cs) =
     (case (hex_value a, hex_value b) of
        (Some x, Some y) \<Rightarrow>
          (case hexDecode cs of Inl e \<Rightarrow> Inl e | Inr bs \<Rightarrow> Inr (of_nat (16 * x + y) # bs))
      | _ \<Rightarrow> Inl Error)"

definition exampleHexStrToBuf :: decoder where
  "exampleHexStrToBuf s = hexDecode (remove0x s)"

text \<open>
  Three transpilers for the examples: one that accepts everything and returns its input,
  one that rejects both bytecodes, and one that rejects the deployed bytecode only.
\<close>

definition acceptingTranspiler :: Transpiler where
  "acceptingTranspiler =
     \<lparr>transpile = (\<lambda>b d n. SuccessfulTranspilation b),
      transpileRawBytecode = (\<lambda>d. SuccessfulTranspilation d)\<rparr>"

definition rejectingTranspiler :: Transpiler where
  "rejectingTranspiler =
     \<lparr>transpile = (\<lambda>b d n. ErroredTranspilation [\<lparr>index = 0, message = ''constructor''\<rparr>]),
      transpileRawBytecode = (\<lambda>d. ErroredTranspilation [\<lparr>index = 1, message = ''deployed''\<rparr>])\<rparr>"

definition rejectingDeployedTranspiler :: Transpiler where
  "rejectingDeployedTranspiler =
     \<lparr>transpile = (\<lambda>b d n. SuccessfulTranspilation b),
      transpileRawBytecode = (\<lambda>d. ErroredTranspilation [\<lparr>index = 1, message = ''deployed''\<rparr>])\<rparr>"

text \<open>
  A contract with the byte \<^verbatim>\<open>ff\<close> in both bytecodes, a transpiler that rejects exactly the
  buffers holding that byte, and a compiler output with two contracts in one file.
\<close>

definition exampleContractBad :: jsval where
  "exampleContractBad =
     JObj [(''abi'', JArr []),
           (''evm'', JObj
              [(''bytecode'', JObj [(''object'', JStr ''60ffa165'')]),
               (''deployedBytecode'', JObj [(''object'', JStr ''ffa165'')]),
               (''legacyAssembly'', JObj
                  [(''.data'', JObj [(''0'', JObj [(''.auxdata'', JStr ''a165'')])])])])]"

definition strictCheck :: "byte list \<Rightarrow> TranspilationResult" where
  "strictCheck buf =
     (if 255 \<in> set buf
      then ErroredTranspilation
             [\<lparr>index = length (takeWhile (\<lambda>x. x \<noteq> 255) buf), message = ''disallowed opcode''\<rparr>]
      else SuccessfulTranspilation buf)"

definition strictTranspiler :: Transpiler where
  "strictTranspiler =
     \<lparr>transpile = (\<lambda>b d n. strictCheck b), transpileRawBytecode = strictCheck\<rparr>"

definition exampleSolcOutput :: jsval where
  "exampleSolcOutput =
     JObj [(''contracts'', JObj
              [(''a.sol'', JObj [(''Bad'', exampleContractBad), (''Good'', exampleContract)])]),
           (''sources'', JObj [(''a.sol'', JObj [(''id'', JNum 0)])])]"

text \<open>What the loop of \<^verbatim>\<open>compile\<close> makes of that output with the strict transpiler.\<close>

definition exampleSolcError :: jsval where
  "exampleSolcError =
     solcError ''general'' ''a.sol:Bad error [disallowed opcode] at index 1 of bytecode''
       ''error'' ''CompilerError''"

definition exampleContractBadOut :: jsval where
  "exampleContractBadOut =
     JObj [(''abi'', JArr []),
           (''evm'', JObj
              [(''bytecode'', JObj [(''object'', JStr [])]),
               (''deployedBytecode'', JObj [(''object'', JStr [])]),
               (''legacyAssembly'', JObj
                  [(''.data'', JObj [(''0'', JObj [(''.auxdata'', JStr ''a165'')])])])])]"

definition exampleContractOut :: jsval where
  "exampleContractOut =
     JObj [(''abi'', JArr []),
           (''evm'', JObj
              [(''bytecode'', JObj [(''object'', JStr ''6001'')]),
               (''deployedBytecode'', JObj [(''object'', JStr ''01'')]),
               (''legacyAssembly'', JObj
                  [(''.data'', JObj [(''0'', JObj [(''.auxdata'', JStr ''a165'')])])])])]"

definition exampleTranspiledOutput :: jsval where
  "exampleTranspiledOutput =
     JObj [(''contracts'', JObj
              [(''a.sol'', JObj [(''Bad'', exampleContractBadOut), (''Good'', exampleContractOut)])]),
           (''sources'', JObj [(''a.sol'', JObj [(''id'', JNum 0)])]),
           (''errors'', JArr [exampleSolcError])]"

text \<open>
  The collaborators of the examples. \<^verbatim>\<open>JSON.stringify\<close> is a printer without escapes,
  \<^verbatim>\<open>JSON.parse\<close> knows the texts of the example configuration and of the example compiler
  output, the compiler answers every request with that output, and an address is valid when
  it is \<^verbatim>\<open>0x\<close> and forty hexadecimal digits.
\<close>

fun joinComma :: "string list \<Rightarrow> string" where
  "joinComma [] = []"
| "joinComma [x] = x"
| "joinComma (x # y # ys) = x @ '','' @ joinComma (y # ys)"

fun showJson :: "jsval \<Rightarrow> string" where
  "showJson JUndefined = ''undefined''"
| "showJson JNull = ''null''"
| "showJson (JBool b) = (if b then ''true'' else ''false'')"
| "showJson (JNum i) = show_int i"
| "showJson (JStr s) = ''\"'' @ s @ ''\"''"
| "showJson (JArr xs) = ''['' @ joinComma (map showJson xs) @ '']''"
| "showJson (JObj kvs) =
     ''{'' @ joinComma (map (\<lambda>(k, v). ''\"'' @ k @ ''\":'' @ showJson v) kvs) @ ''}''"

definition exampleAddress :: string where
  "exampleAddress = ''0x00000000000000000000000000000000deadbeef''"

definition exampleIsValidHexAddress :: "string \<Rightarrow> bool" where
  "exampleIsValidHexAddress s = (prefix ''0x'' s \<and> length s = 42 \<and> list_all is_hex_char (drop 2 s))"

definition exampleSettings :: "jsval \<Rightarrow> jsval \<Rightarrow> jsval" where
  "exampleSettings address outputSelection =
     JObj [(''language'', JStr ''Solidity''),
           (''sources'', JObj [(''a.sol'', JObj [(''content'', JStr ''contract Bad {} contract Good {}'')])]),
           (''settings'', JObj [(''executionManagerAddress'', address),
                                (''outputSelection'', outputSelection)])]"

definition exampleConfig :: jsval where
  "exampleConfig =
     exampleSettings (JStr exampleAddress)
       (JObj [(''*'', JObj [(''*'', JArr [JStr ''evm.legacyAssembly'', JStr ''*''])])])"

definition exampleParse :: "string \<Rightarrow> jsval option" where
  "exampleParse s =
     (if s = showJson exampleConfig then Some exampleConfig
      else if s = showJson exampleSolcOutput then Some exampleSolcOutput
      else None)"

definition exampleCollaborators :: "unit collaborators" where
  "exampleCollaborators =
     \<lparr>JSON_parse = exampleParse,
      JSON_stringify = showJson,
      solc_compile = (\<lambda>config callbacks. showJson exampleSolcOutput),
      isValidHexAddress = exampleIsValidHexAddress,
      hexStrToBuf = exampleHexStrToBuf,
      TranspilerImpl = (\<lambda>address. strictTranspiler),
      EXECUTION_MANAGER_ADDRESS = None\<rparr>"

text \<open>The example output after formatting.\<close>

definition exampleContractBadFormatted :: jsval where
  "exampleContractBadFormatted =
     JObj [(''abi'', JArr []),
           (''evm'', JObj
              [(''bytecode'', JObj [(''object'', JStr [])]),
               (''deployedBytecode'', JObj [(''object'', JStr [])])])]"

definition exampleContractFormatted :: jsval where
  "exampleContractFormatted =
     JObj [(''abi'', JArr []),
           (''evm'', JObj
              [(''bytecode'', JObj [(''object'', JStr ''6001'')]),
               (''deployedBytecode'', JObj [(''object'', JStr ''01'')])])]"

definition exampleFormattedOutput :: jsval where
  "exampleFormattedOutput =
     JObj [(''contracts'', JObj
              [(''a.sol'', JObj [(''Bad'', exampleContractBadFormatted),
                                 (''Good'', exampleContractFormatted)])]),
           (''sources'', JObj [(''a.sol'', JObj [(''id'', JNum 0)])]),
           (''errors'', JArr [exampleSolcError])]"

text \<open>
  Three defective configurations: one without settings, one with an address that is not
  valid, one whose output selection gives an array where the contracts of a file are
  expected.
\<close>

definition exampleConfigNoSettings :: jsval where
  "exampleConfigNoSettings = JObj [(''language'', JStr ''Solidity'')]"

definition exampleConfigBadAddress :: jsval where
  "exampleConfigBadAddress =
     exampleSettings (JStr ''0x1234'') (JObj [(''*'', JObj [(''*'', JArr [JStr ''*''])])])"

definition exampleConfigBadSelection :: jsval where
  "exampleConfigBadSelection =
     exampleSettings (JStr exampleAddress) (JObj [(''a.sol'', JArr [JStr ''abi''])])"

text \<open>
  Two more: the configuration \<^verbatim>\<open>null\<close>, and one whose output selection holds \<^verbatim>\<open>null\<close> where the
  contracts of a file are expected.
\<close>

definition exampleConfigNullFile :: jsval where
  "exampleConfigNullFile =
     exampleSettings (JStr exampleAddress) (JObj [(''a.sol'', JNull)])"

definition exampleParseAll :: "string \<Rightarrow> jsval option" where
  "exampleParseAll s =
     (if s = showJson exampleConfigNoSettings then Some exampleConfigNoSettings
      else if s = showJson exampleConfigBadAddress then Some exampleConfigBadAddress
      else if s = showJson exampleConfigBadSelection then Some exampleConfigBadSelection
      else if s = showJson exampleConfigNullFile then Some exampleConfigNullFile
      else if s = ''null'' then Some JNull
      else exampleParse s)"

text \<open>A compiler that answers every request with the same text.\<close>

definition constantSolc :: "string \<Rightarrow> string \<Rightarrow> unit option \<Rightarrow> string" where
  "constantSolc answer config callbacks = answer"

text \<open>
  A batch of three contracts of which the second was compiled for its \<^verbatim>\<open>abi\<close> alone, so that
  the compiler reports no \<^verbatim>\<open>evm.bytecode\<close> for it, and a batch of two contracts of which the
  first uses a library that is not linked yet, so that its bytecode holds a placeholder
  where the address of the library belongs. The configurations that ask for them, and the
  collaborators with a compiler that answers with them.
\<close>

definition exampleContractAbi :: jsval where
  "exampleContractAbi =
     JObj [(''abi'', JArr []),
           (''evm'', JObj
              [(''legacyAssembly'', JObj
                  [(''.data'', JObj [(''0'', JObj [(''.auxdata'', JStr ''a165'')])])])])]"

definition exampleContractUnlinked :: jsval where
  "exampleContractUnlinked =
     JObj [(''abi'', JArr []),
           (''evm'', JObj
              [(''bytecode'', JObj [(''object'', JStr ''6073__$0a1b2c3d4e5f60718293a4b5c6d7e8f901$__63a165'')]),
               (''deployedBytecode'', JObj [(''object'', JStr ''73__$0a1b2c3d4e5f60718293a4b5c6d7e8f901$__63a165'')]),
               (''legacyAssembly'', JObj
                  [(''.data'', JObj [(''0'', JObj [(''.auxdata'', JStr ''a165'')])])])])]"

definition exampleSolcOutputAbi :: jsval where
  "exampleSolcOutputAbi =
     JObj [(''contracts'', JObj
              [(''a.sol'', JObj [(''Bad'', exampleContractBad), (''Abi'', exampleContractAbi),
                                 (''Good'', exampleContract)])]),
           (''sources'', JObj [(''a.sol'', JObj [(''id'', JNum 0)])])]"

definition exampleSolcOutputUnlinked :: jsval where
  "exampleSolcOutputUnlinked =
     JObj [(''contracts'', JObj
              [(''a.sol'', JObj [(''Unlinked'', exampleContractUnlinked), (''Good'', exampleContract)])]),
           (''sources'', JObj [(''a.sol'', JObj [(''id'', JNum 0)])])]"

definition exampleConfigAbi :: jsval where
  "exampleConfigAbi =
     exampleSettings (JStr exampleAddress)
       (JObj [(''a.sol'', JObj [(''Bad'', JArr [JStr ''evm.bytecode'', JStr ''evm.deployedBytecode'']),
                                (''Abi'', JArr [JStr ''abi'']),
                                (''Good'', JArr [JStr ''evm.bytecode'', JStr ''evm.deployedBytecode''])])])"

definition exampleConfigUnlinked :: jsval where
  "exampleConfigUnlinked =
     exampleSettings (JStr exampleAddress)
       (JObj [(''a.sol'', JObj [(''*'', JArr [JStr ''evm.bytecode'', JStr ''evm.deployedBytecode''])])])"

definition exampleParseBatch :: "string \<Rightarrow> jsval option" where
  "exampleParseBatch s =
     (if s = showJson exampleConfigAbi then Some exampleConfigAbi
      else if s = showJson exampleSolcOutputAbi then Some exampleSolcOutputAbi
      else if s = showJson exampleConfigUnlinked then Some exampleConfigUnlinked
      else if s = showJson exampleSolcOutputUnlinked then Some exampleSolcOutputUnlinked
      else exampleParse s)"

definition exampleCollaboratorsAbi :: "unit collaborators" where
  "exampleCollaboratorsAbi =
     exampleCollaborators
       \<lparr>JSON_parse := exampleParseBatch, solc_compile := constantSolc (showJson exampleSolcOutputAbi)\<rparr>"

definition exampleCollaboratorsUnlinked :: "unit collaborators" where
  "exampleCollaboratorsUnlinked =
     exampleCollaborators
       \<lparr>JSON_parse := exampleParseBatch,
        solc_compile := constantSolc (showJson exampleSolcOutputUnlinked)\<rparr>"

section \<open>Keys\<close>

text \<open>A key that is a word: not an index, not \<^verbatim>\<open>length\<close> and not a member of \<^verbatim>\<open>Object.prototype\<close>.
  A property under such a key can only be read from an object.\<close>

definition word_key :: "string \<Rightarrow> bool" where
  "word_key k = (identifier_like k \<and> k \<noteq> ''length'' \<and> \<not> set k \<subseteq> set ''0123456789''
                 \<and> k \<notin> set object_prototype_names)"

section \<open>Notions for the batch\<close>

text \<open>The errors a compiler output holds: the elements of its \<^verbatim>\<open>errors\<close> array, if it has one.\<close>

definition errorList :: "jsval \<Rightarrow> jsval list" where
  "errorList res = (case getProp res ''errors'' of Inr (JArr xs) \<Rightarrow> xs | _ \<Rightarrow> [])"

text \<open>
  A compiler output to which errors can be added: an object whose \<^verbatim>\<open>errors\<close> is absent,
  falsy or an array. The test of \<^verbatim>\<open>compile\<close> for compiler errors lets no other output reach
  the loop.
\<close>

definition errorsAppendable :: "jsval \<Rightarrow> bool" where
  "errorsAppendable res =
     (case res of
        JObj kvs \<Rightarrow> (case map_of kvs ''errors'' of
                       None \<Rightarrow> True
                     | Some e \<Rightarrow> \<not> truthy e \<or> Array_isArray e)
      | _ \<Rightarrow> False)"

text \<open>
  A contract as the compiler front-end reports it: both bytecodes are strings, the auxdata
  is a string or absent, and the contract itself has no \<^verbatim>\<open>bytecode\<close>, \<^verbatim>\<open>deployedBytecode\<close> or
  \<^verbatim>\<open>errors\<close> field.
\<close>

fun isString :: "js_error + jsval \<Rightarrow> bool" where
  "isString (Inr (JStr s)) = True"
| "isString r = False"

fun isStringOrUndefined :: "js_error + jsval \<Rightarrow> bool" where
  "isStringOrUndefined (Inr (JStr s)) = True"
| "isStringOrUndefined (Inr JUndefined) = True"
| "isStringOrUndefined r = False"

definition solcContract :: "jsval \<Rightarrow> bool" where
  "solcContract c =
     (isString (readObject c ''bytecode'') \<and> isString (readObject c ''deployedBytecode'') \<and>
      isStringOrUndefined (getAuxData c) \<and>
      getProp c ''bytecode'' = Inr JUndefined \<and> getProp c ''deployedBytecode'' = Inr JUndefined \<and>
      getProp c ''errors'' = Inr JUndefined)"

text \<open>
  \<^verbatim>\<open>hexStrToBuf\<close> returns for the texts \<^verbatim>\<open>transpileContract\<close> gives it: always the bytecode as
  the compiler reported it; the constructor bytecode without its auxdata if it is not empty,
  and then the deployed bytecode too; the deployed bytecode without its auxdata if it is not
  empty.
\<close>

fun decodes :: "decoder \<Rightarrow> js_error + jsval \<Rightarrow> bool" where
  "decodes toBuf (Inr (JStr s)) = (case toBuf s of Inr bs \<Rightarrow> True | Inl e \<Rightarrow> False)"
| "decodes toBuf r = False"

definition decodable :: "decoder \<Rightarrow> jsval \<Rightarrow> bool" where
  "decodable toBuf c =
     (decodes toBuf (readObject c ''bytecode'') \<and>
      (if getBytecode c False = Inr (JStr [])
       then getBytecode c True = Inr (JStr []) \<or> decodes toBuf (getBytecode c True)
       else decodes toBuf (getBytecode c False) \<and> decodes toBuf (getBytecode c True)))"

text \<open>A contract, and a file of contracts, that the loop of \<^verbatim>\<open>compile\<close> processes without an exception.\<close>

definition processableContract :: "decoder \<Rightarrow> jsval \<Rightarrow> bool" where
  "processableContract toBuf c = (solcContract c \<and> decodable toBuf c)"

definition processableFile :: "decoder \<Rightarrow> jsval \<Rightarrow> bool" where
  "processableFile toBuf fileJson =
     (case fileJson of
        JObj cs \<Rightarrow> list_all (\<lambda>(n, c). processableContract toBuf c) cs
      | _ \<Rightarrow> False)"

text \<open>The errors \<^verbatim>\<open>transpileContract\<close> returns for a contract, a file and a batch.\<close>

definition outputErrors :: "TranspilationOutput \<Rightarrow> jsval list" where
  "outputErrors out = (case errors out of JArr es \<Rightarrow> es | _ \<Rightarrow> [])"

definition contractErrors ::
  "decoder \<Rightarrow> Transpiler \<Rightarrow> string \<Rightarrow> string \<Rightarrow> jsval \<Rightarrow> jsval list" where
  "contractErrors toBuf transpiler filename contractName contractJson =
     (case transpileContract toBuf transpiler contractJson filename contractName of
        Inr out \<Rightarrow> outputErrors out
      | Inl e \<Rightarrow> [])"

definition fileErrors ::
  "decoder \<Rightarrow> Transpiler \<Rightarrow> string \<Rightarrow> (string \<times> jsval) list \<Rightarrow> jsval list" where
  "fileErrors toBuf transpiler filename cs =
     concat (map (\<lambda>(n, c). contractErrors toBuf transpiler filename n c) cs)"

definition batchErrors ::
  "decoder \<Rightarrow> Transpiler \<Rightarrow> (string \<times> jsval) list \<Rightarrow> jsval list" where
  "batchErrors toBuf transpiler files =
     concat (map (\<lambda>(f, fileJson). case fileJson of JObj cs \<Rightarrow> fileErrors toBuf transpiler f cs | _ \<Rightarrow> [])
               files)"

section \<open>Notions for the formatted output\<close>


section \<open>Basic facts\<close>

lemma thenE_Inr [simp]: "thenE (Inr v) f = f v"
  by (simp add: thenE_def)

lemma thenE_Inl [simp]: "thenE (Inl e) f = Inl e"
  by (simp add: thenE_def)

lemma thenE_eq_Inr: "thenE m f = Inr r \<longleftrightarrow> (\<exists>v. m = Inr v \<and> f v = Inr r)"
  by (cases m) simp_all

lemma getProp_solcError:
  "getProp (solcError c m s t) ''component'' = Inr (JStr c)"
  "getProp (solcError c m s t) ''message'' = Inr (JStr m)"
  "getProp (solcError c m s t) ''severity'' = Inr (JStr s)"
  "getProp (solcError c m s t) ''type'' = Inr (JStr t)"
  by (simp_all add: solcError_def)

section \<open>One solc error for each transpilation error\<close>

lemma transpilerErrorMessage_shape:
  "prefix (file @ '':'' @ contract) (transpilerErrorMessage file contract d x)"
  "sublist (''at index '' @ show_nat (index x) @ '' of '') (transpilerErrorMessage file contract d x)"
  "suffix '' of deployed bytecode'' (transpilerErrorMessage file contract d x) = d"
  "suffix '' of bytecode'' (transpilerErrorMessage file contract d x) = (\<not> d)"
proof -
  let ?m = "transpilerErrorMessage file contract d x"
  show "prefix (file @ '':'' @ contract) ?m"
    by (simp add: transpilerErrorMessage_def)
  have "?m = (file @ '':'' @ contract @ '' error ['' @ message x @ ''] '')
               @ (''at index '' @ show_nat (index x) @ '' of '')
               @ (if d then ''deployed bytecode'' else ''bytecode'')"
    by (simp add: transpilerErrorMessage_def)
  then show "sublist (''at index '' @ show_nat (index x) @ '' of '') ?m"
    unfolding sublist_def by blast
  have split: "?m = (file @ '':'' @ contract @ '' error ['' @ message x @ ''] at index ''
                      @ show_nat (index x))
               @ (if d then '' of deployed bytecode'' else '' of bytecode'')"
    by (simp add: transpilerErrorMessage_def)
  show "suffix '' of deployed bytecode'' ?m = d"
    by (subst split) (simp add: suffix_to_prefix)
  show "suffix '' of bytecode'' ?m = (\<not> d)"
    by (subst split) (simp add: suffix_to_prefix)
qed

text \<open>
  C6. \<^verbatim>\<open>getSolcErrorsFromTranspilerErrors\<close> returns exactly one record for each
  \<^verbatim>\<open>TranspilationError\<close>, in the same order. The record at position \<open>i\<close> has the fields
  \<^verbatim>\<open>component\<close>, \<^verbatim>\<open>message\<close>, \<^verbatim>\<open>severity\<close> and \<^verbatim>\<open>type\<close>; its message begins with the file
  name and the contract name, contains the byte index of the error at position \<open>i\<close>, and
  ends in "of deployed bytecode" exactly when the errors are those of the deployed
  bytecode, in "of bytecode" exactly when they are those of the constructor bytecode.
\<close>

theorem solc_error_per_transpilation_error:
  "length (getSolcErrorsFromTranspilerErrors es file contract d) = length es \<and>
   (\<forall>i < length es.
      let r = getSolcErrorsFromTranspilerErrors es file contract d ! i;
          m = transpilerErrorMessage file contract d (es ! i)
      in getProp r ''component'' = Inr (JStr ''general'') \<and>
         getProp r ''message'' = Inr (JStr m) \<and>
         getProp r ''severity'' = Inr (JStr ''error'') \<and>
         getProp r ''type'' = Inr (JStr ''CompilerError'') \<and>
         prefix (file @ '':'' @ contract) m \<and>
         sublist (''at index '' @ show_nat (index (es ! i)) @ '' of '') m \<and>
         suffix '' of deployed bytecode'' m = d \<and>
         suffix '' of bytecode'' m = (\<not> d))"
proof (intro conjI allI impI)
  show "length (getSolcErrorsFromTranspilerErrors es file contract d) = length es"
    by (simp add: getSolcErrorsFromTranspilerErrors_def)
next
  fix i assume i: "i < length es"
  have r: "getSolcErrorsFromTranspilerErrors es file contract d ! i =
        solcError ''general'' (transpilerErrorMessage file contract d (es ! i)) ''error'' ''CompilerError''"
    using i by (simp add: getSolcErrorsFromTranspilerErrors_def)
  show "let r = getSolcErrorsFromTranspilerErrors es file contract d ! i;
          m = transpilerErrorMessage file contract d (es ! i)
      in getProp r ''component'' = Inr (JStr ''general'') \<and>
         getProp r ''message'' = Inr (JStr m) \<and>
         getProp r ''severity'' = Inr (JStr ''error'') \<and>
         getProp r ''type'' = Inr (JStr ''CompilerError'') \<and>
         prefix (file @ '':'' @ contract) m \<and>
         sublist (''at index '' @ show_nat (index (es ! i)) @ '' of '') m \<and>
         suffix '' of deployed bytecode'' m = d \<and>
         suffix '' of bytecode'' m = (\<not> d)"
    unfolding Let_def r getProp_solcError
    by (intro conjI refl transpilerErrorMessage_shape)
qed

theorem solc_error_per_transpilation_error_witness:
  "(0::nat) < length [\<lparr>index = 2, message = ''disallowed opcode''\<rparr>] \<and>
   getProp (getSolcErrorsFromTranspilerErrors [\<lparr>index = 2, message = ''disallowed opcode''\<rparr>]
              ''a.sol'' ''C'' True ! 0) ''message''
     = Inr (JStr ''a.sol:C error [disallowed opcode] at index 2 of deployed bytecode'')"
proof -
  have m: "transpilerErrorMessage ''a.sol'' ''C'' True \<lparr>index = 2, message = ''disallowed opcode''\<rparr>
       = ''a.sol:C error [disallowed opcode] at index 2 of deployed bytecode''"
    by code_simp
  have h: "(0::nat) < length [\<lparr>index = 2, message = ''disallowed opcode''\<rparr>]" by simp
  from solc_error_per_transpilation_error
         [of "[\<lparr>index = 2, message = ''disallowed opcode''\<rparr>]" "''a.sol''" "''C''" True]
  have "\<forall>i < length [\<lparr>index = 2, message = ''disallowed opcode''\<rparr>].
     getProp (getSolcErrorsFromTranspilerErrors [\<lparr>index = 2, message = ''disallowed opcode''\<rparr>]
              ''a.sol'' ''C'' True ! i) ''message''
     = Inr (JStr (transpilerErrorMessage ''a.sol'' ''C'' True ([\<lparr>index = 2, message = ''disallowed opcode''\<rparr>] ! i)))"
    unfolding Let_def by blast
  with h have "getProp (getSolcErrorsFromTranspilerErrors [\<lparr>index = 2, message = ''disallowed opcode''\<rparr>]
              ''a.sol'' ''C'' True ! 0) ''message''
     = Inr (JStr (transpilerErrorMessage ''a.sol'' ''C'' True ([\<lparr>index = 2, message = ''disallowed opcode''\<rparr>] ! 0)))"
    by blast
  with h m show ?thesis by simp
qed

section \<open>The default whitelist mask\<close>

lemma mask_bits_default: "mask_bits DEFAULT_OPCODE_WHITELIST_MASK = Some 256"
  by code_simp

text \<open>
  C9. The built-in default mask encodes exactly 256 bits; the mask is optional and the
  default is used when none is configured; a mask that is accepted always has exactly 256
  bits, and a mask of any other length is a configuration error.
\<close>

theorem whitelist_mask_256_bits:
  "mask_bits DEFAULT_OPCODE_WHITELIST_MASK = Some 256 \<and>
   resolveWhitelistMask None = Inr DEFAULT_OPCODE_WHITELIST_MASK \<and>
   (\<forall>m r. resolveWhitelistMask m = Inr r \<longrightarrow> mask_bits r = Some 256) \<and>
   (\<forall>m. mask_bits m \<noteq> Some 256 \<longrightarrow> resolveWhitelistMask (Some m) = Inl MaskLengthError)"
proof (intro conjI allI impI)
  show "mask_bits DEFAULT_OPCODE_WHITELIST_MASK = Some 256" by (rule mask_bits_default)
  show "resolveWhitelistMask None = Inr DEFAULT_OPCODE_WHITELIST_MASK"
    by (simp add: resolveWhitelistMask_def mask_bits_default)
next
  fix m r assume "resolveWhitelistMask m = Inr r"
  then show "mask_bits r = Some 256"
    by (simp add: resolveWhitelistMask_def Let_def split: if_splits)
next
  fix m assume "mask_bits m \<noteq> Some 256"
  then show "resolveWhitelistMask (Some m) = Inl MaskLengthError"
    by (simp add: resolveWhitelistMask_def)
qed

theorem whitelist_mask_256_bits_witness:
  "mask_bits ''0xff'' \<noteq> Some 256 \<and> resolveWhitelistMask (Some ''0xff'') = Inl MaskLengthError \<and>
   resolveWhitelistMask None = Inr DEFAULT_OPCODE_WHITELIST_MASK \<and>
   mask_bits DEFAULT_OPCODE_WHITELIST_MASK = Some 256"
proof -
  have h: "mask_bits ''0xff'' \<noteq> Some 256" by code_simp
  with whitelist_mask_256_bits show ?thesis by blast
qed

section \<open>Stripping the auxdata\<close>





lemma catchUndefined_Inr [simp]: "catchUndefined (Inr v) = Inr v"
  by (simp add: catchUndefined_def)



lemma transpileContract_unfold:
  assumes "readObject c ''bytecode'' = Inr (JStr obj)"
      and "getBytecode c False = Inr (JStr b)"
      and "getBytecode c True = Inr (JStr d)"
  shows "transpileContract toBuf tr c f n =
     thenE (toBuf obj) (\<lambda>ob.
     if b = [] \<and> d = [] then asTranspilationOutput c
     else if b \<noteq> [] then
       thenE (toBuf b) (\<lambda>bb.
       thenE (toBuf d) (\<lambda>db.
       case transpile tr bb db (length ob) of
         ErroredTranspilation errs \<Rightarrow>
           Inr (erroredOutput (getSolcErrorsFromTranspilerErrors errs f n False))
       | SuccessfulTranspilation out \<Rightarrow>
           transpileDeployed toBuf tr (JStr (bufToHexString out)) (JStr d) f n))
     else transpileDeployed toBuf tr (JStr b) (JStr d) f n)"
  using assms by (simp add: transpileContract_def onStringE_def Let_def cong: if_cong)

lemma transpileDeployed_unfold:
  "transpileDeployed toBuf tr b' (JStr d) f n =
     (if d \<noteq> [] then
        thenE (toBuf d) (\<lambda>db.
        case transpileRawBytecode tr db of
          ErroredTranspilation errs \<Rightarrow>
            Inr (erroredOutput (getSolcErrorsFromTranspilerErrors errs f n True))
        | SuccessfulTranspilation out \<Rightarrow>
            Inr \<lparr>bytecode = b', deployedBytecode = JStr (bufToHexString out), errors = JUndefined\<rparr>)
      else Inr \<lparr>bytecode = b', deployedBytecode = JStr d, errors = JUndefined\<rparr>)"
  by (simp add: transpileDeployed_def onStringE_def)



lemma exampleContract_facts:
  "readObject exampleContract ''bytecode'' = Inr (JStr ''6001a165'')"
  "readObject exampleContract ''deployedBytecode'' = Inr (JStr ''01a165'')"
  "getAuxData exampleContract = Inr (JStr ''a165'')"
  by (simp_all add: exampleContract_def readObject_def getAuxData_def)



section \<open>Reading and writing the bytecode fields\<close>

lemma map_of_setKey: "map_of (setKey kvs k v) k' = (if k' = k then Some v else map_of kvs k')"
  by (induction kvs) auto

lemma show_nat_digits: "set (show_nat n) \<subseteq> set ''0123456789''"
proof (induction n rule: show_nat.induct)
  case (1 n)
  have d: "hex_digits ! m \<in> set ''0123456789''" if "m < 10" for m
  proof -
    from that have "m \<in> {0,1,2,3,4,5,6,7,8,9}" by auto
    then show ?thesis by (auto simp: hex_digits_def)
  qed
  show ?case
  proof (cases "n < 10")
    case True
    then show ?thesis by (subst show_nat.simps) (use d in auto)
  next
    case False
    have "n mod 10 < 10" by simp
    with False 1 d [of "n mod 10"] show ?thesis
      by (subst show_nat.simps) auto
  qed
qed

lemma array_index_Some: "array_index k n = Some i \<Longrightarrow> k = show_nat i"
  unfolding array_index_def by (auto simp: find_Some_iff)

lemma array_index_not_digits:
  assumes "\<not> set k \<subseteq> set ''0123456789''"
  shows "array_index k n = None"
proof (cases "array_index k n")
  case None
  then show ?thesis .
next
  case (Some i)
  then have "k = show_nat i" by (rule array_index_Some)
  with show_nat_digits [of i] assms show ?thesis by simp
qed

lemma getProp_word_Inr:
  assumes "getProp v k = Inr x" and "word_key k"
  obtains kvs where "v = JObj kvs" and "x = (case map_of kvs k of Some y \<Rightarrow> y | None \<Rightarrow> JUndefined)"
  using assms
  by (cases v) (auto simp: word_key_def array_index_not_digits split: option.splits if_splits)

lemma word_keys:
  "word_key ''evm''" "word_key ''bytecode''" "word_key ''deployedBytecode''" "word_key ''object''"
  "word_key ''errors''" "word_key ''contracts''" "word_key ''settings''"
  "word_key ''outputSelection''" "word_key ''legacyAssembly''"
  by (simp_all add: word_key_def identifier_like_def is_ident_char_def object_prototype_names_def)

lemma readObject_shape:
  assumes "readObject c fld = Inr x" and "word_key fld"
  obtains ckvs ekvs bkvs where "c = JObj ckvs" and "map_of ckvs ''evm'' = Some (JObj ekvs)"
    and "map_of ekvs fld = Some (JObj bkvs)" and "getProp (JObj bkvs) ''object'' = Inr x"
proof -
  from assms(1) obtain evm bc where
    e: "getProp c ''evm'' = Inr evm" and b: "getProp evm fld = Inr bc"
    and o: "getProp bc ''object'' = Inr x"
    by (auto simp: readObject_def thenE_eq_Inr)
  from o word_keys(4) obtain bkvs where bc: "bc = JObj bkvs"
    by (rule getProp_word_Inr)
  from b assms(2) obtain ekvs where evm: "evm = JObj ekvs"
    and bc': "bc = (case map_of ekvs fld of Some y \<Rightarrow> y | None \<Rightarrow> JUndefined)"
    by (rule getProp_word_Inr)
  from e word_keys(1) obtain ckvs where c: "c = JObj ckvs"
    and evm': "evm = (case map_of ckvs ''evm'' of Some y \<Rightarrow> y | None \<Rightarrow> JUndefined)"
    by (rule getProp_word_Inr)
  from evm evm' have "map_of ckvs ''evm'' = Some (JObj ekvs)" by (auto split: option.splits)
  moreover from bc bc' have "map_of ekvs fld = Some (JObj bkvs)" by (auto split: option.splits)
  ultimately show thesis using c o bc that by blast
qed

lemma assignObject_spec:
  assumes "readObject c fld = Inr x" and "word_key fld"
  shows "\<exists>c'. assignObject c fld v = Inr c' \<and> readObject c' fld = Inr v \<and>
              (\<forall>fld'. fld' \<noteq> fld \<longrightarrow> readObject c' fld' = readObject c fld')"
proof -
  from assms obtain ckvs ekvs bkvs where c: "c = JObj ckvs"
    and e: "map_of ckvs ''evm'' = Some (JObj ekvs)"
    and b: "map_of ekvs fld = Some (JObj bkvs)"
    by (rule readObject_shape)
  let ?c' = "JObj (setKey ckvs ''evm'' (JObj (setKey ekvs fld (JObj (setKey bkvs ''object'' v)))))"
  have 1: "assignObject c fld v = Inr ?c'"
    using c e b by (simp add: assignObject_def updateProp_def assignProp_def)
  have 2: "readObject ?c' fld = Inr v"
    by (simp add: readObject_def map_of_setKey)
  have 3: "readObject ?c' fld' = readObject c fld'" if "fld' \<noteq> fld" for fld'
    using that c e by (simp add: readObject_def map_of_setKey)
  from 1 2 3 show ?thesis by blast
qed

lemma writeBack_spec:
  assumes "readObject c ''bytecode'' = Inr x" and "readObject c ''deployedBytecode'' = Inr y"
      and "orEmpty (bytecode out) = JStr bs" and "orEmpty (deployedBytecode out) = JStr ds"
  shows "\<exists>c'. writeBack c out = Inr c' \<and>
              readObject c' ''bytecode'' = Inr (JStr (remove0x bs)) \<and>
              readObject c' ''deployedBytecode'' = Inr (JStr (remove0x ds))"
proof -
  let ?b = "JStr (remove0x bs)" and ?d = "JStr (remove0x ds)"
  from assignObject_spec [OF assms(1) word_keys(2), of ?b]
  obtain c1 where 1: "assignObject c ''bytecode'' ?b = Inr c1"
    and b1: "readObject c1 ''bytecode'' = Inr ?b"
    and d1: "readObject c1 ''deployedBytecode'' = readObject c ''deployedBytecode''"
    by auto
  from d1 assms(2) have d1': "readObject c1 ''deployedBytecode'' = Inr y" by simp
  from assignObject_spec [OF d1' word_keys(3), of ?d]
  obtain c2 where 2: "assignObject c1 ''deployedBytecode'' ?d = Inr c2"
    and d2: "readObject c2 ''deployedBytecode'' = Inr ?d"
    and b2: "readObject c2 ''bytecode'' = readObject c1 ''bytecode''"
    by auto
  from b2 b1 have b2': "readObject c2 ''bytecode'' = Inr ?b" by simp
  from assignObject_spec [OF b2' word_keys(2), of ?b]
  obtain c3 where 3: "assignObject c2 ''bytecode'' ?b = Inr c3"
    and b3: "readObject c3 ''bytecode'' = Inr ?b"
    and d3: "readObject c3 ''deployedBytecode'' = readObject c2 ''deployedBytecode''"
    by auto
  from d3 d2 have d3': "readObject c3 ''deployedBytecode'' = Inr ?d" by simp
  from assignObject_spec [OF d3' word_keys(3), of ?d]
  obtain c4 where 4: "assignObject c3 ''deployedBytecode'' ?d = Inr c4"
    and d4: "readObject c4 ''deployedBytecode'' = Inr ?d"
    and b4: "readObject c4 ''bytecode'' = readObject c3 ''bytecode''"
    by auto
  have "writeBack c out = Inr c4"
    using assms(3,4) 1 2 3 4 by (simp add: writeBack_def onString_def)
  with d4 b4 b3 show ?thesis by simp
qed

lemma getBytecode_JStr_readObject:
  assumes "getBytecode c dep = Inr (JStr s)"
  shows "\<exists>code. readObject c (if dep then ''deployedBytecode'' else ''bytecode'') = Inr code"
  using assms
  by (cases "readObject c (if dep then ''deployedBytecode'' else ''bytecode'')")
     (auto simp: getBytecode_def catchUndefined_def split: js_error.splits)

section \<open>Hexadecimal text and the loop over the batch\<close>

lemma remove0x_bufToHexString: "remove0x (bufToHexString buf) = hex_of_bytes buf"
  by (simp add: remove0x_def bufToHexString_def)

lemma remove0x_empty: "remove0x [] = []"
  by (simp add: remove0x_def)

lemma hex_digit_nth: "i < 16 \<Longrightarrow> hex_digits ! i \<in> set hex_digits"
proof -
  assume "i < 16"
  moreover have "length hex_digits = 16" by (simp add: hex_digits_def)
  ultimately show ?thesis by (metis nth_mem)
qed

lemma hex_of_byte_chars: "set (hex_of_byte b) \<subseteq> set hex_digits"
proof -
  have "unat b < 256" using unsigned_less [of b] by simp
  then have "unat b div 16 < 16" by simp
  moreover have "unat b mod 16 < 16" by simp
  ultimately show ?thesis
    unfolding hex_of_byte_def using hex_digit_nth by auto
qed

lemma hex_of_bytes_chars: "set (hex_of_bytes bs) \<subseteq> set hex_digits"
  using hex_of_byte_chars by (induction bs) (auto simp: hex_of_bytes_def)

lemma hex_of_bytes_is_hex: "is_hex_string (hex_of_bytes bs)"
  using hex_of_bytes_chars [of bs] by (auto simp: is_hex_string_def list_all_iff)

lemma hex_string_no_prefix: "is_hex_string s \<Longrightarrow> \<not> prefix ''0x'' s"
  by (cases s; cases "tl s") (auto simp: is_hex_string_def hex_digits_def)

lemma foldEntries_keys:
  "foldEntries body s es = Inr (s', es') \<Longrightarrow> map fst es' = map fst es"
proof (induction es arbitrary: s s' es')
  case Nil
  then show ?case by simp
next
  case (Cons e es)
  obtain k v where e: "e = (k, v)" by (cases e)
  from Cons.prems e obtain s1 v' s2 es1 where
    "body s k v = Inr (s1, v')" and r: "foldEntries body s1 es = Inr (s2, es1)"
    and "es' = (k, v') # es1"
    by (auto split: sum.splits prod.splits)
  with Cons.IH [OF r] e show ?case by simp
qed

lemma foldEntries_nth:
  assumes "foldEntries body s es = Inr (s', es')" and "j < length es"
  shows "\<exists>s1 s2. body s1 (fst (es ! j)) (snd (es ! j)) = Inr (s2, snd (es' ! j))"
  using assms
proof (induction es arbitrary: s s' es' j)
  case Nil
  then show ?case by simp
next
  case (Cons e es)
  obtain k v where e: "e = (k, v)" by (cases e)
  from Cons.prems(1) e obtain s1 v' s2 es1 where
    b: "body s k v = Inr (s1, v')" and r: "foldEntries body s1 es = Inr (s2, es1)"
    and es': "es' = (k, v') # es1"
    by (auto split: sum.splits prod.splits)
  show ?case
  proof (cases j)
    case 0
    with b e es' show ?thesis by auto
  next
    case (Suc i)
    with Cons.prems(2) have "i < length es" by simp
    from Cons.IH [OF r this] Suc es' show ?thesis by simp
  qed
qed

lemma overEntries_JObj:
  "overEntries body s (JObj kvs) = Inr (s', v') \<longleftrightarrow>
     (\<exists>kvs'. foldEntries body s kvs = Inr (s', kvs') \<and> v' = JObj kvs')"
  by (cases "foldEntries body s kvs") (auto simp: overEntries_def)

lemma getProp_assignProp:
  "assignProp r k v = Inr r' \<Longrightarrow> getProp r' k = Inr v"
  by (cases r) (auto simp: assignProp_def map_of_setKey)

text \<open>Every contract of the batch is visited, and its new value is that of the loop body.\<close>

lemma transpileContracts_pointwise:
  assumes run: "transpileContracts toBuf tr res = Inr res'"
      and contracts: "getProp res ''contracts'' = Inr (JObj files)"
      and i: "i < length files" and fi0: "files ! i = (f, JObj cs)"
      and j: "j < length cs" and contract: "cs ! j = (n, c)"
  shows "\<exists>files' cs' c' r1 r2.
           getProp res' ''contracts'' = Inr (JObj files') \<and>
           length files' = length files \<and> files' ! i = (f, JObj cs') \<and>
           length cs' = length cs \<and> cs' ! j = (n, c') \<and>
           compileContract toBuf tr f r1 n c = Inr (r2, c')"
proof -
  from run contracts obtain r files' where
    fold: "foldEntries (compileFile toBuf tr) res files = Inr (r, files')"
    and assign: "assignProp r ''contracts'' (JObj files') = Inr res'"
    by (auto simp: transpileContracts_def thenE_eq_Inr overEntries_JObj)
  from assign have g: "getProp res' ''contracts'' = Inr (JObj files')"
    by (rule getProp_assignProp)
  from fold have keys: "map fst files' = map fst files" by (rule foldEntries_keys)
  then have len: "length files' = length files" by (metis length_map)
  from foldEntries_nth [OF fold i] fi0 obtain s1 s2 where
    cf: "compileFile toBuf tr s1 f (JObj cs) = Inr (s2, snd (files' ! i))"
    by auto
  then obtain cs' where inner: "foldEntries (compileContract toBuf tr f) s1 cs = Inr (s2, cs')"
    and fi: "snd (files' ! i) = JObj cs'"
    by (auto simp: compileFile_def overEntries_JObj)
  from keys i len fi0 have "fst (files' ! i) = f"
    by (metis fst_conv nth_map)
  with fi have file': "files' ! i = (f, JObj cs')" by (metis prod.collapse)
  from inner have ckeys: "map fst cs' = map fst cs" by (rule foldEntries_keys)
  then have clen: "length cs' = length cs" by (metis length_map)
  from foldEntries_nth [OF inner j] contract obtain r1 r2 where
    body: "compileContract toBuf tr f r1 n c = Inr (r2, snd (cs' ! j))"
    by auto
  from ckeys j clen contract have "fst (cs' ! j) = n"
    by (metis fst_conv nth_map)
  then have "cs' ! j = (n, snd (cs' ! j))" by (metis prod.collapse)
  with g len file' clen body show ?thesis by blast
qed

section \<open>Facts about the examples\<close>

lemma example_batch_run:
  "transpileContracts exampleHexStrToBuf strictTranspiler exampleSolcOutput = Inr exampleTranspiledOutput"
  by code_simp

lemma exampleContractBad_facts:
  "readObject exampleContractBad ''bytecode'' = Inr (JStr ''60ffa165'')"
  "getBytecode exampleContractBad False = Inr (JStr ''60ff'')"
  "getBytecode exampleContractBad True = Inr (JStr ''ff'')"
  by code_simp+

lemma exampleContract_bytecodes:
  "getBytecode exampleContract False = Inr (JStr ''6001'')"
  "getBytecode exampleContract True = Inr (JStr ''01'')"
  by code_simp+

lemma example_decoded:
  "exampleHexStrToBuf ''60ffa165'' = Inr [96, 255, 161, 101]"
  "exampleHexStrToBuf ''60ff'' = Inr [96, 255]"
  "exampleHexStrToBuf ''ff'' = Inr [255]"
  "exampleHexStrToBuf ''6001a165'' = Inr [96, 1, 161, 101]"
  "exampleHexStrToBuf ''6001'' = Inr [96, 1]"
  "exampleHexStrToBuf ''01'' = Inr [1]"
  by code_simp+

lemma strictTranspiler_bad:
  "transpile strictTranspiler [96, 255] [255] (length [96 :: byte, 255, 161, 101])
   = ErroredTranspilation [\<lparr>index = 1, message = ''disallowed opcode''\<rparr>]"
  by code_simp

lemma strictTranspiler_good:
  "transpile strictTranspiler [96, 1] [1] (length [96 :: byte, 1, 161, 101])
   = SuccessfulTranspilation [96, 1]"
  "transpileRawBytecode strictTranspiler [1] = SuccessfulTranspilation [1]"
  by code_simp+

lemma exampleSolcError_eq:
  "getSolcErrorsFromTranspilerErrors [\<lparr>index = 1, message = ''disallowed opcode''\<rparr>] ''a.sol'' ''Bad'' False
     = [exampleSolcError]"
  by code_simp


lemma example_formatted:
  "formattedOutput exampleTranspiledOutput exampleConfig = Inr exampleFormattedOutput"
  by code_simp

lemma example_compile:
  "compile exampleCollaborators (showJson exampleConfig) None = Inr (showJson exampleFormattedOutput)"
  by code_simp

section \<open>The errors of a batch\<close>

lemma word_key_not_proto: "word_key k \<Longrightarrow> k \<notin> set object_prototype_names"
  by (simp add: word_key_def)

lemma pushErrors_undefined: "pushErrors r JUndefined = Inr r"
  by (simp add: pushErrors_def)

lemma pushErrors_array:
  assumes "errorsAppendable r"
  shows "\<exists>r'. pushErrors r (JArr ys) = Inr r' \<and> errorsAppendable r' \<and>
              errorList r' = errorList r @ ys"
proof -
  from assms obtain kvs where r: "r = JObj kvs"
    by (cases r) (simp_all add: errorsAppendable_def)
  note gp = word_key_not_proto [OF word_keys(5)]
  show ?thesis
  proof (cases "map_of kvs ''errors''")
    case None
    then show ?thesis unfolding r
      by (simp add: pushErrors_def gp assignProp_def spread_def map_of_setKey
            errorsAppendable_def errorList_def)
  next
    case (Some e)
    show ?thesis
    proof (cases "truthy e")
      case False
      with Some show ?thesis unfolding r
        by (cases e)
           (simp_all add: pushErrors_def gp assignProp_def spread_def map_of_setKey
              errorsAppendable_def errorList_def)
    next
      case True
      with assms Some r obtain xs where "e = JArr xs"
        by (cases e) (simp_all add: errorsAppendable_def)
      with Some show ?thesis unfolding r
        by (simp add: pushErrors_def gp assignProp_def spread_def map_of_setKey
              errorsAppendable_def errorList_def)
    qed
  qed
qed

lemma isString_D: "isString r \<Longrightarrow> \<exists>s. r = Inr (JStr s)"
  by (cases r rule: isString.cases) simp_all

lemma decodes_D: "decodes toBuf r \<Longrightarrow> \<exists>s bs. r = Inr (JStr s) \<and> toBuf s = Inr bs"
  by (cases "(toBuf, r)" rule: decodes.cases) (auto split: sum.splits)

lemma solcContract_getBytecode:
  assumes "solcContract c"
  shows "\<exists>obj b d. readObject c ''bytecode'' = Inr (JStr obj) \<and>
           getBytecode c False = Inr (JStr b) \<and> getBytecode c True = Inr (JStr d)"
proof -
  from assms obtain obj dobj where
    o: "readObject c ''bytecode'' = Inr (JStr obj)"
    and d: "readObject c ''deployedBytecode'' = Inr (JStr dobj)"
    unfolding solcContract_def by (blast dest: isString_D)
  from assms have "isStringOrUndefined (getAuxData c)" by (simp add: solcContract_def)
  then consider "getAuxData c = Inr JUndefined" | a where "getAuxData c = Inr (JStr a)"
    by (cases "getAuxData c" rule: isStringOrUndefined.cases) simp_all
  then show ?thesis
  proof cases
    case 1
    with o d show ?thesis by (simp add: getBytecode_def)
  next
    case 2
    with o d show ?thesis
      by (simp add: getBytecode_def js_split_first_def split_first_def)
  qed
qed

text \<open>The result of \<^verbatim>\<open>transpileContract\<close> for a processable contract: errors alone, or
  strings for both bytecodes, or nothing at all.\<close>

lemma processable_output:
  assumes "processableContract toBuf c"
  shows "\<exists>out. transpileContract toBuf tr c f n = Inr out \<and>
           (\<exists>bs. orEmpty (bytecode out) = JStr bs) \<and> (\<exists>ds. orEmpty (deployedBytecode out) = JStr ds) \<and>
           (errors out = JUndefined \<or> (\<exists>es. errors out = JArr es))"
proof -
  from assms have sc: "solcContract c" and dc: "decodable toBuf c"
    by (simp_all add: processableContract_def)
  from solcContract_getBytecode [OF sc] obtain obj b d where
    o: "readObject c ''bytecode'' = Inr (JStr obj)"
    and b: "getBytecode c False = Inr (JStr b)" and d: "getBytecode c True = Inr (JStr d)"
    by blast
  from dc o obtain ob where ob: "toBuf obj = Inr ob"
    by (auto simp: decodable_def split: sum.splits)
  from sc have top: "asTranspilationOutput c =
      Inr \<lparr>bytecode = JUndefined, deployedBytecode = JUndefined, errors = JUndefined\<rparr>"
    by (simp add: solcContract_def asTranspilationOutput_def)
  show ?thesis
  proof (cases "b = [] \<and> d = []")
    case True
    then show ?thesis
      unfolding transpileContract_unfold [OF o b d] ob top by (simp add: orEmpty_def)
  next
    case False
    with dc b d obtain db where db: "toBuf d = Inr db"
      by (auto simp: decodable_def split: if_splits sum.splits)
    show ?thesis
    proof (cases "b = []")
      case True
      with False db show ?thesis
        unfolding transpileContract_unfold [OF o b d] ob transpileDeployed_unfold
        by (auto simp: orEmpty_def erroredOutput_def bufToHexString_def
              split: TranspilationResult.splits)
    next
      case nb: False
      with dc b obtain bb where bb: "toBuf b = Inr bb"
        by (auto simp: decodable_def split: if_splits sum.splits)
      from nb db bb show ?thesis
        unfolding transpileContract_unfold [OF o b d] ob transpileDeployed_unfold
        by (auto simp: orEmpty_def erroredOutput_def bufToHexString_def
              split: TranspilationResult.splits)
    qed
  qed
qed

lemma processable_step:
  assumes "processableContract toBuf c" and "errorsAppendable r"
  shows "\<exists>r' c'. compileContract toBuf tr f r n c = Inr (r', c') \<and> errorsAppendable r' \<and>
           errorList r' = errorList r @ contractErrors toBuf tr f n c"
proof -
  from processable_output [OF assms(1)] obtain out bs ds where
    tc: "transpileContract toBuf tr c f n = Inr out"
    and ob: "orEmpty (bytecode out) = JStr bs" and od: "orEmpty (deployedBytecode out) = JStr ds"
    and e: "errors out = JUndefined \<or> (\<exists>es. errors out = JArr es)"
    by blast
  from assms(1) obtain x y where "readObject c ''bytecode'' = Inr x"
    "readObject c ''deployedBytecode'' = Inr y"
    unfolding processableContract_def solcContract_def by (blast dest: isString_D)
  from writeBack_spec [OF this ob od] obtain c' where wb: "writeBack c out = Inr c'" by blast
  from e show ?thesis
  proof
    assume u: "errors out = JUndefined"
    with tc wb assms(2) show ?thesis
      by (simp add: compileContract_def pushErrors_undefined contractErrors_def outputErrors_def)
  next
    assume "\<exists>es. errors out = JArr es"
    then obtain es where es: "errors out = JArr es" ..
    from pushErrors_array [OF assms(2), of es] obtain r' where
      "pushErrors r (JArr es) = Inr r'" "errorsAppendable r'" "errorList r' = errorList r @ es"
      by blast
    with tc wb es show ?thesis
      by (simp add: compileContract_def contractErrors_def outputErrors_def)
  qed
qed

lemma processable_contracts_run:
  assumes "list_all (\<lambda>(n, c). processableContract toBuf c) cs" and "errorsAppendable r"
  shows "\<exists>r' cs'. foldEntries (compileContract toBuf tr f) r cs = Inr (r', cs') \<and>
           errorsAppendable r' \<and> errorList r' = errorList r @ fileErrors toBuf tr f cs"
  using assms
proof (induction cs arbitrary: r)
  case Nil
  then show ?case by (simp add: fileErrors_def)
next
  case (Cons e cs)
  obtain n c where e: "e = (n, c)" by (cases e)
  with Cons.prems have sc: "processableContract toBuf c"
    and rest: "list_all (\<lambda>(n, c). processableContract toBuf c) cs"
    by simp_all
  from processable_step [OF sc Cons.prems(2)] obtain r1 c' where
    s: "compileContract toBuf tr f r n c = Inr (r1, c')" and a1: "errorsAppendable r1"
    and l1: "errorList r1 = errorList r @ contractErrors toBuf tr f n c"
    by blast
  from Cons.IH [OF rest a1] obtain r2 cs' where
    "foldEntries (compileContract toBuf tr f) r1 cs = Inr (r2, cs')" "errorsAppendable r2"
    "errorList r2 = errorList r1 @ fileErrors toBuf tr f cs"
    by blast
  with s l1 e show ?case by (simp add: fileErrors_def)
qed

lemma processable_files_run:
  assumes "list_all (\<lambda>(f, fileJson). processableFile toBuf fileJson) files" and "errorsAppendable r"
  shows "\<exists>r' files'. foldEntries (compileFile toBuf tr) r files = Inr (r', files') \<and>
           errorsAppendable r' \<and> errorList r' = errorList r @ batchErrors toBuf tr files"
  using assms
proof (induction files arbitrary: r)
  case Nil
  then show ?case by (simp add: batchErrors_def)
next
  case (Cons e files)
  obtain f fj where e: "e = (f, fj)" by (cases e)
  with Cons.prems have "processableFile toBuf fj"
    and rest: "list_all (\<lambda>(f, fileJson). processableFile toBuf fileJson) files"
    by simp_all
  then obtain cs where fj: "fj = JObj cs" and cs: "list_all (\<lambda>(n, c). processableContract toBuf c) cs"
    by (cases fj) (simp_all add: processableFile_def)
  from processable_contracts_run [OF cs Cons.prems(2)] obtain r1 cs' where
    s: "foldEntries (compileContract toBuf tr f) r cs = Inr (r1, cs')" and a1: "errorsAppendable r1"
    and l1: "errorList r1 = errorList r @ fileErrors toBuf tr f cs"
    by blast
  from s have cf: "compileFile toBuf tr r f fj = Inr (r1, JObj cs')"
    by (simp add: compileFile_def fj overEntries_def)
  from Cons.IH [OF rest a1] obtain r2 files' where
    "foldEntries (compileFile toBuf tr) r1 files = Inr (r2, files')" "errorsAppendable r2"
    "errorList r2 = errorList r1 @ batchErrors toBuf tr files"
    by blast
  with cf l1 e fj show ?case by (simp add: batchErrors_def)
qed

lemma errorList_assign_contracts:
  assumes "assignProp r ''contracts'' v = Inr r'"
  shows "errorList r' = errorList r"
  using assms
  by (cases r) (auto simp: assignProp_def errorList_def map_of_setKey)

lemma errorList_updateProp_contracts:
  assumes "updateProp r ''contracts'' g = Inr r'"
  shows "errorList r' = errorList r"
  using assms
  by (auto simp: updateProp_def thenE_eq_Inr dest: errorList_assign_contracts)

lemma contractErrors_in_batch:
  assumes "(f, JObj cs) \<in> set files" and "(n, c) \<in> set cs"
  shows "set (contractErrors toBuf tr f n c) \<subseteq> set (batchErrors toBuf tr files)"
proof -
  from assms(2) have "set (contractErrors toBuf tr f n c) \<subseteq> set (fileErrors toBuf tr f cs)"
    by (force simp: fileErrors_def)
  moreover from assms(1) have "set (fileErrors toBuf tr f cs) \<subseteq> set (batchErrors toBuf tr files)"
    by (force simp: batchErrors_def)
  ultimately show ?thesis by blast
qed

text \<open>The loop over a processable batch, and what it leaves in \<^verbatim>\<open>errors\<close>.\<close>

lemma processable_batch_run:
  assumes contracts: "getProp res ''contracts'' = Inr (JObj files)"
      and app: "errorsAppendable res"
      and wf: "list_all (\<lambda>(f, fileJson). processableFile toBuf fileJson) files"
  shows "\<exists>res'. transpileContracts toBuf tr res = Inr res' \<and>
           errorList res' = errorList res @ batchErrors toBuf tr files"
proof -
  from processable_files_run [OF wf app] obtain r files' where
    fold: "foldEntries (compileFile toBuf tr) res files = Inr (r, files')"
    and a: "errorsAppendable r"
    and l: "errorList r = errorList res @ batchErrors toBuf tr files"
    by blast
  from a obtain kvs where r: "r = JObj kvs" by (cases r) (simp_all add: errorsAppendable_def)
  let ?res' = "JObj (setKey kvs ''contracts'' (JObj files'))"
  have asg: "assignProp r ''contracts'' (JObj files') = Inr ?res'"
    by (simp add: r assignProp_def)
  have run: "transpileContracts toBuf tr res = Inr ?res'"
    using contracts fold asg by (simp add: transpileContracts_def overEntries_def)
  have el: "errorList ?res' = errorList res @ batchErrors toBuf tr files"
    using errorList_assign_contracts [OF asg] l by simp
  from run el show ?thesis by blast
qed

text \<open>An exception thrown for one entry, after the entries before it were dealt with, ends the iteration.\<close>

lemma foldEntries_abort:
  assumes "foldEntries body s (take j es) = Inr (s1, es1)" and "j < length es"
      and "es ! j = (k, v)" and "body s1 k v = Inl e"
  shows "foldEntries body s es = Inl e"
  using assms
proof (induction es arbitrary: s j es1)
  case Nil
  then show ?case by simp
next
  case (Cons x es)
  obtain k' v' where x: "x = (k', v')" by (cases x)
  show ?case
  proof (cases j)
    case 0
    with Cons.prems x show ?thesis by simp
  next
    case (Suc i)
    with Cons.prems(1) x obtain s' w es' where
      b: "body s k' v' = Inr (s', w)" and r: "foldEntries body s' (take i es) = Inr (s1, es')"
      by (auto split: sum.splits prod.splits)
    from Suc Cons.prems(2,3) have "i < length es" "es ! i = (k, v)" by simp_all
    from Cons.IH [OF r this Cons.prems(4)] b x show ?thesis by simp
  qed
qed

lemma transpileContracts_abort:
  assumes contracts: "getProp res ''contracts'' = Inr (JObj files)"
      and app: "errorsAppendable res"
      and i: "i < length files" and fi0: "files ! i = (f, JObj cs)"
      and j: "j < length cs" and contract: "cs ! j = (n, c)"
      and before: "list_all (\<lambda>(f, fileJson). processableFile toBuf fileJson) (take i files)"
      and before': "list_all (\<lambda>(n, c). processableContract toBuf c) (take j cs)"
      and thrown: "transpileContract toBuf tr c f n = Inl e"
  shows "transpileContracts toBuf tr res = Inl e"
proof -
  from processable_files_run [OF before app] obtain r files1 where
    outer: "foldEntries (compileFile toBuf tr) res (take i files) = Inr (r, files1)"
    and a: "errorsAppendable r"
    by blast
  from processable_contracts_run [OF before' a] obtain r1 cs1 where
    inner: "foldEntries (compileContract toBuf tr f) r (take j cs) = Inr (r1, cs1)"
    by blast
  from thrown have "compileContract toBuf tr f r1 n c = Inl e"
    by (simp add: compileContract_def)
  from foldEntries_abort [OF inner j contract this]
  have "compileFile toBuf tr r f (JObj cs) = Inl e"
    by (simp add: compileFile_def overEntries_def)
  from foldEntries_abort [OF outer i fi0 this] contracts show ?thesis
    by (simp add: transpileContracts_def overEntries_def)
qed

text \<open>From \<^verbatim>\<open>compile\<close> to its loop: what a validated configuration and a clean compiler output leave to do.\<close>

lemma hasSolcErrors_appendable:
  assumes "hasSolcErrors res = Inr failed"
  shows "errorsAppendable res"
proof (cases res)
  case (JObj kvs)
  note gp = word_key_not_proto [OF word_keys(5)]
  show ?thesis
  proof (cases "map_of kvs ''errors''")
    case None
    with JObj show ?thesis by (simp add: errorsAppendable_def)
  next
    case (Some e)
    then have "''errors'' \<in> fst ` set kvs"
      by (metis map_of_eq_None_iff option.distinct(1))
    with Some assms JObj gp have "\<not> truthy e \<or> Array_isArray e"
      by (cases e) (auto simp: hasSolcErrors_def thenE_eq_Inr split: if_splits)
    with JObj Some show ?thesis by (simp add: errorsAppendable_def)
  qed
next
  case (JArr xs)
  with assms show ?thesis
    by (simp add: hasSolcErrors_def array_index_not_digits identifier_like_def is_ident_char_def)
qed (use assms in \<open>simp_all add: hasSolcErrors_def\<close>)

lemma compile_reaches_loop:
  assumes "JSON_parse D s = Some json"
      and "getInputErrors D json = Inr None"
      and "getSolcConfig D json = Inr cfg"
      and "JSON_parse D (solc_compile D cfg cb) = Some res"
      and "hasSolcErrors res = Inr False"
      and "getExecutionManagerAddress (EXECUTION_MANAGER_ADDRESS D) json = Inr addr"
  shows "compile D s cb =
           thenE (transpileContracts (hexStrToBuf D) (TranspilerImpl D addr) res) (\<lambda>res'.
           thenE (formattedOutput res' json) (\<lambda>out. Inr (JSON_stringify D out)))"
  using assms by (simp add: compile_def compileValidated_def formatOutput_def Let_def)

text \<open>
  C2, as stated, fails: nothing in \<^verbatim>\<open>compile\<close> catches an exception thrown while a contract is
  processed. In a batch of three contracts of which the first is rejected by the transpiler
  and the second has no \<^verbatim>\<open>evm.bytecode\<close>, reading the bytecode of the second throws a
  \<^verbatim>\<open>TypeError\<close>; \<^verbatim>\<open>compile\<close> throws it, so that the third contract is not processed and the
  errors of the first are not returned. In a batch whose first contract holds the placeholder
  of a library, \<^verbatim>\<open>hexStrToBuf\<close> throws on its bytecode, and \<^verbatim>\<open>compile\<close> throws with it.
\<close>

theorem one_contract_aborts_batch:
  "transpileContract exampleHexStrToBuf strictTranspiler exampleContractBad ''a.sol'' ''Bad''
     = Inr (erroredOutput [exampleSolcError]) \<and>
   transpileContract exampleHexStrToBuf strictTranspiler exampleContractAbi ''a.sol'' ''Abi''
     = Inl TypeError \<and>
   compile exampleCollaboratorsAbi (showJson exampleConfigAbi) None = Inl TypeError \<and>
   transpileContract exampleHexStrToBuf strictTranspiler exampleContractUnlinked ''a.sol'' ''Unlinked''
     = Inl Error \<and>
   compile exampleCollaboratorsUnlinked (showJson exampleConfigUnlinked) None = Inl Error"
  by code_simp

text \<open>
  C2, amended. Let \<^verbatim>\<open>compile\<close> reach its loop: the configuration is JSON and passes the
  validation, and the answer of the compiler is JSON without an error of severity
  \<^verbatim>\<open>error\<close>. If every contract of the answer is processable (both bytecodes are strings,
  \<^verbatim>\<open>hexStrToBuf\<close> accepts the texts it is given, the auxdata is a string or absent, and the
  contract has no \<^verbatim>\<open>bytecode\<close>, \<^verbatim>\<open>deployedBytecode\<close> or \<^verbatim>\<open>errors\<close> of its own), the loop runs to
  its end whatever the transpiler answers for each contract: the failure of one contract does
  not stop the others. Afterwards \<^verbatim>\<open>errors\<close> holds the errors the compiler had reported,
  followed by the errors of every contract in the order of the batch, and \<^verbatim>\<open>compile\<close>
  returns what \<^verbatim>\<open>formatOutput\<close> makes of that output: when the formatting returns an object,
  \<^verbatim>\<open>compile\<close> returns its text, and its \<^verbatim>\<open>errors\<close> is that array, with the errors of every
  contract whose transpilation failed. If instead \<^verbatim>\<open>transpileContract\<close> throws for a contract,
  the files and the contracts before it being processable, \<^verbatim>\<open>compile\<close> throws the same
  exception and returns nothing.
\<close>

theorem failed_contracts_reported_unless_thrown:
  assumes parse: "JSON_parse D s = Some json"
      and valid: "getInputErrors D json = Inr None"
      and config: "getSolcConfig D json = Inr cfg"
      and answer: "JSON_parse D (solc_compile D cfg cb) = Some res"
      and clean: "hasSolcErrors res = Inr False"
      and address: "getExecutionManagerAddress (EXECUTION_MANAGER_ADDRESS D) json = Inr addr"
      and contracts: "getProp res ''contracts'' = Inr (JObj files)"
      and toBuf: "toBuf = hexStrToBuf D" and tr: "tr = TranspilerImpl D addr"
  shows "(list_all (\<lambda>(f, fileJson). processableFile toBuf fileJson) files \<longrightarrow>
           (\<exists>res'. transpileContracts toBuf tr res = Inr res' \<and>
              errorList res' = errorList res @ batchErrors toBuf tr files \<and>
              compile D s cb = formatOutput D res' json \<and>
              (\<forall>out. formattedOutput res' json = Inr out \<longrightarrow>
                 compile D s cb = Inr (JSON_stringify D out) \<and>
                 errorList out = errorList res @ batchErrors toBuf tr files \<and>
                 (\<forall>f cs n c es.
                    (f, JObj cs) \<in> set files \<and> (n, c) \<in> set cs \<and>
                    transpileContract toBuf tr c f n = Inr (erroredOutput es) \<longrightarrow>
                    set es \<subseteq> set (errorList out))))) \<and>
         (\<forall>i j f cs n c e.
            i < length files \<and> files ! i = (f, JObj cs) \<and> j < length cs \<and> cs ! j = (n, c) \<and>
            list_all (\<lambda>(f, fileJson). processableFile toBuf fileJson) (take i files) \<and>
            list_all (\<lambda>(n, c). processableContract toBuf c) (take j cs) \<and>
            transpileContract toBuf tr c f n = Inl e \<longrightarrow>
            compile D s cb = Inl e)"
proof (intro conjI allI impI)
  note loop = compile_reaches_loop [OF parse valid config answer clean address, folded toBuf tr]
  from clean have app: "errorsAppendable res" by (rule hasSolcErrors_appendable)
  { assume wf: "list_all (\<lambda>(f, fileJson). processableFile toBuf fileJson) files"
    from processable_batch_run [OF contracts app wf, of tr] obtain res' where
      run: "transpileContracts toBuf tr res = Inr res'"
      and el: "errorList res' = errorList res @ batchErrors toBuf tr files"
      by blast
    have ret: "compile D s cb = formatOutput D res' json"
      unfolding loop run by (simp add: formatOutput_def)
    have fmt: "compile D s cb = Inr (JSON_stringify D out) \<and>
               errorList out = errorList res @ batchErrors toBuf tr files \<and>
               (\<forall>f cs n c es.
                  (f, JObj cs) \<in> set files \<and> (n, c) \<in> set cs \<and>
                  transpileContract toBuf tr c f n = Inr (erroredOutput es) \<longrightarrow>
                  set es \<subseteq> set (errorList out))"
      if out: "formattedOutput res' json = Inr out" for out
    proof (intro conjI allI impI)
      show "compile D s cb = Inr (JSON_stringify D out)"
        unfolding loop run using out by simp
      from out have "errorList out = errorList res'"
        unfolding formattedOutput_def by (rule errorList_updateProp_contracts)
      with el show l: "errorList out = errorList res @ batchErrors toBuf tr files" by simp
      fix f cs n c es
      assume a: "(f, JObj cs) \<in> set files \<and> (n, c) \<in> set cs \<and>
                 transpileContract toBuf tr c f n = Inr (erroredOutput es)"
      then have "contractErrors toBuf tr f n c = es"
        by (simp add: contractErrors_def outputErrors_def erroredOutput_def)
      with contractErrors_in_batch [of f cs files n c toBuf tr] a l
      show "set es \<subseteq> set (errorList out)" by auto
    qed
    from run el ret fmt
    show "\<exists>res'. transpileContracts toBuf tr res = Inr res' \<and>
              errorList res' = errorList res @ batchErrors toBuf tr files \<and>
              compile D s cb = formatOutput D res' json \<and>
              (\<forall>out. formattedOutput res' json = Inr out \<longrightarrow>
                 compile D s cb = Inr (JSON_stringify D out) \<and>
                 errorList out = errorList res @ batchErrors toBuf tr files \<and>
                 (\<forall>f cs n c es.
                    (f, JObj cs) \<in> set files \<and> (n, c) \<in> set cs \<and>
                    transpileContract toBuf tr c f n = Inr (erroredOutput es) \<longrightarrow>
                    set es \<subseteq> set (errorList out)))"
      by blast }
  fix i j f cs n c e
  assume a: "i < length files \<and> files ! i = (f, JObj cs) \<and> j < length cs \<and> cs ! j = (n, c) \<and>
            list_all (\<lambda>(f, fileJson). processableFile toBuf fileJson) (take i files) \<and>
            list_all (\<lambda>(n, c). processableContract toBuf c) (take j cs) \<and>
            transpileContract toBuf tr c f n = Inl e"
  have "transpileContracts toBuf tr res = Inl e"
    by (rule transpileContracts_abort [OF contracts app, of i f cs j n c]) (use a in simp_all)
  then show "compile D s cb = Inl e"
    unfolding loop by simp
qed

lemma example_reaches_loop:
  "JSON_parse exampleCollaborators (showJson exampleConfig) = Some exampleConfig"
  "getInputErrors exampleCollaborators exampleConfig = Inr None"
  "JSON_parse exampleCollaborators (solc_compile exampleCollaborators cfg None) = Some exampleSolcOutput"
  "hasSolcErrors exampleSolcOutput = Inr False"
  "getExecutionManagerAddress (EXECUTION_MANAGER_ADDRESS exampleCollaborators) exampleConfig
     = Inr (JStr exampleAddress)"
  "getProp exampleSolcOutput ''contracts'' =
     Inr (JObj [(''a.sol'', JObj [(''Bad'', exampleContractBad), (''Good'', exampleContract)])])"
  "exampleHexStrToBuf = hexStrToBuf exampleCollaborators"
  "strictTranspiler = TranspilerImpl exampleCollaborators (JStr exampleAddress)"
proof -
  have p: "exampleParse (showJson exampleSolcOutput) = Some exampleSolcOutput" by code_simp
  show "JSON_parse exampleCollaborators (solc_compile exampleCollaborators cfg None)
          = Some exampleSolcOutput"
    by (simp add: exampleCollaborators_def p)
  show "exampleHexStrToBuf = hexStrToBuf exampleCollaborators"
       "strictTranspiler = TranspilerImpl exampleCollaborators (JStr exampleAddress)"
    by (simp_all add: exampleCollaborators_def)
qed code_simp+

lemma example_config_accepted: "\<exists>cfg. getSolcConfig exampleCollaborators exampleConfig = Inr cfg"
proof -
  have "case getSolcConfig exampleCollaborators exampleConfig of Inr c \<Rightarrow> True | Inl e \<Rightarrow> False"
    by code_simp
  then show ?thesis by (auto split: sum.splits)
qed

lemma exampleAbi_reaches_loop:
  "JSON_parse exampleCollaboratorsAbi (showJson exampleConfigAbi) = Some exampleConfigAbi"
  "getInputErrors exampleCollaboratorsAbi exampleConfigAbi = Inr None"
  "JSON_parse exampleCollaboratorsAbi (solc_compile exampleCollaboratorsAbi cfg None)
     = Some exampleSolcOutputAbi"
  "hasSolcErrors exampleSolcOutputAbi = Inr False"
  "getExecutionManagerAddress (EXECUTION_MANAGER_ADDRESS exampleCollaboratorsAbi) exampleConfigAbi
     = Inr (JStr exampleAddress)"
  "getProp exampleSolcOutputAbi ''contracts'' =
     Inr (JObj [(''a.sol'', JObj [(''Bad'', exampleContractBad), (''Abi'', exampleContractAbi),
                                  (''Good'', exampleContract)])])"
  "exampleHexStrToBuf = hexStrToBuf exampleCollaboratorsAbi"
  "strictTranspiler = TranspilerImpl exampleCollaboratorsAbi (JStr exampleAddress)"
proof -
  have p: "exampleParseBatch (showJson exampleSolcOutputAbi) = Some exampleSolcOutputAbi" by code_simp
  show "JSON_parse exampleCollaboratorsAbi (solc_compile exampleCollaboratorsAbi cfg None)
          = Some exampleSolcOutputAbi"
    by (simp add: exampleCollaboratorsAbi_def constantSolc_def p)
  show "exampleHexStrToBuf = hexStrToBuf exampleCollaboratorsAbi"
       "strictTranspiler = TranspilerImpl exampleCollaboratorsAbi (JStr exampleAddress)"
    by (simp_all add: exampleCollaboratorsAbi_def exampleCollaborators_def)
qed code_simp+

lemma exampleAbi_config_accepted:
  "\<exists>cfg. getSolcConfig exampleCollaboratorsAbi exampleConfigAbi = Inr cfg"
proof -
  have "case getSolcConfig exampleCollaboratorsAbi exampleConfigAbi of
          Inr c \<Rightarrow> True | Inl e \<Rightarrow> False"
    by code_simp
  then show ?thesis by (auto split: sum.splits)
qed

lemma example_batch_processable:
  "list_all (\<lambda>(f, fileJson). processableFile exampleHexStrToBuf fileJson)
     [(''a.sol'', JObj [(''Bad'', exampleContractBad), (''Good'', exampleContract)])]"
  "list_all (\<lambda>(f, fileJson). processableFile exampleHexStrToBuf fileJson)
     (take 0 [(''a.sol'', JObj [(''Bad'', exampleContractBad), (''Abi'', exampleContractAbi),
                                (''Good'', exampleContract)])])"
  "list_all (\<lambda>(n, c). processableContract exampleHexStrToBuf c)
     (take 1 [(''Bad'', exampleContractBad), (''Abi'', exampleContractAbi), (''Good'', exampleContract)])"
  "transpileContract exampleHexStrToBuf strictTranspiler exampleContractAbi ''a.sol'' ''Abi''
     = Inl TypeError"
  "errorList exampleSolcOutput = []"
  "batchErrors exampleHexStrToBuf strictTranspiler
     [(''a.sol'', JObj [(''Bad'', exampleContractBad), (''Good'', exampleContract)])]
     = [exampleSolcError]"
  "errorList exampleFormattedOutput = [exampleSolcError]"
  by code_simp+

theorem failed_contracts_reported_unless_thrown_witness:
  "list_all (\<lambda>(f, fileJson). processableFile exampleHexStrToBuf fileJson)
     [(''a.sol'', JObj [(''Bad'', exampleContractBad), (''Good'', exampleContract)])] \<and>
   transpileContracts exampleHexStrToBuf strictTranspiler exampleSolcOutput = Inr exampleTranspiledOutput \<and>
   errorList exampleTranspiledOutput =
     errorList exampleSolcOutput @ batchErrors exampleHexStrToBuf strictTranspiler
       [(''a.sol'', JObj [(''Bad'', exampleContractBad), (''Good'', exampleContract)])] \<and>
   compile exampleCollaborators (showJson exampleConfig) None = Inr (showJson exampleFormattedOutput) \<and>
   errorList exampleFormattedOutput = [exampleSolcError] \<and>
   list_all (\<lambda>(n, c). processableContract exampleHexStrToBuf c)
     (take 1 [(''Bad'', exampleContractBad), (''Abi'', exampleContractAbi), (''Good'', exampleContract)]) \<and>
   transpileContract exampleHexStrToBuf strictTranspiler exampleContractAbi ''a.sol'' ''Abi''
     = Inl TypeError \<and>
   compile exampleCollaboratorsAbi (showJson exampleConfigAbi) None = Inl TypeError"
proof -
  from example_config_accepted obtain cfg where
    cfg: "getSolcConfig exampleCollaborators exampleConfig = Inr cfg" ..
  note t = failed_contracts_reported_unless_thrown
             [OF example_reaches_loop(1,2) cfg example_reaches_loop(3,4,5,6,7,8)]
  from t example_batch_processable(1) obtain res' where
    run: "transpileContracts exampleHexStrToBuf strictTranspiler exampleSolcOutput = Inr res'"
    and el: "errorList res' = errorList exampleSolcOutput @ batchErrors exampleHexStrToBuf strictTranspiler
              [(''a.sol'', JObj [(''Bad'', exampleContractBad), (''Good'', exampleContract)])]"
    and ret: "\<forall>out. formattedOutput res' exampleConfig = Inr out \<longrightarrow>
                compile exampleCollaborators (showJson exampleConfig) None
                  = Inr (JSON_stringify exampleCollaborators out)"
    by blast
  from run example_batch_run have res': "res' = exampleTranspiledOutput" by simp
  from ret res' example_formatted
  have 1: "compile exampleCollaborators (showJson exampleConfig) None = Inr (showJson exampleFormattedOutput)"
    by (simp add: exampleCollaborators_def)
  from exampleAbi_config_accepted obtain cfg' where
    cfg': "getSolcConfig exampleCollaboratorsAbi exampleConfigAbi = Inr cfg'" ..
  note u = failed_contracts_reported_unless_thrown
             [OF exampleAbi_reaches_loop(1,2) cfg' exampleAbi_reaches_loop(3,4,5,6,7,8)]
  from u have "\<forall>i j f cs n c e.
            i < length [(''a.sol'', JObj [(''Bad'', exampleContractBad), (''Abi'', exampleContractAbi),
                                (''Good'', exampleContract)])] \<and>
            [(''a.sol'', JObj [(''Bad'', exampleContractBad), (''Abi'', exampleContractAbi),
                                (''Good'', exampleContract)])] ! i = (f, JObj cs) \<and>
            j < length cs \<and> cs ! j = (n, c) \<and>
            list_all (\<lambda>(f, fileJson). processableFile exampleHexStrToBuf fileJson)
              (take i [(''a.sol'', JObj [(''Bad'', exampleContractBad), (''Abi'', exampleContractAbi),
                                (''Good'', exampleContract)])]) \<and>
            list_all (\<lambda>(n, c). processableContract exampleHexStrToBuf c) (take j cs) \<and>
            transpileContract exampleHexStrToBuf strictTranspiler c f n = Inl e \<longrightarrow>
            compile exampleCollaboratorsAbi (showJson exampleConfigAbi) None = Inl e"
    by (rule conjunct2)
  from this [rule_format, of 0 "''a.sol''"
        "[(''Bad'', exampleContractBad), (''Abi'', exampleContractAbi), (''Good'', exampleContract)]"
        1 "''Abi''" exampleContractAbi TypeError]
       example_batch_processable(2,3,4)
  have 2: "compile exampleCollaboratorsAbi (showJson exampleConfigAbi) None = Inl TypeError"
    by simp
  from 1 2 run res' el example_batch_processable show ?thesis by simp
qed

section \<open>The formatted output\<close>
















section \<open>From the compiler output to the returned output\<close>

lemma formatContract_cases:
  assumes "formatContract inputConfig f n c = Inr c'"
  shows "c' = c \<or> deleteLegacyAssembly c = Inr c'"
  using assms
  by (auto simp: formatContract_def thenE_eq_Inr Let_def split: if_splits)

lemma map_of_deleteKey_other: "k' \<noteq> k \<Longrightarrow> map_of (deleteKey kvs k) k' = map_of kvs k'"
  by (induction kvs) (auto simp: deleteKey_def)

lemma readObject_deleteLegacyAssembly:
  assumes "deleteLegacyAssembly c = Inr c'" and "fld \<noteq> ''legacyAssembly''"
  shows "readObject c' fld = readObject c fld"
proof -
  from assms(1) obtain evm where e: "getProp c ''evm'' = Inr evm"
    by (auto simp: deleteLegacyAssembly_def thenE_eq_Inr)
  show ?thesis
  proof (cases evm)
    case (JObj ekvs)
    with assms(1) e have a: "assignProp c ''evm'' (JObj (deleteKey ekvs ''legacyAssembly'')) = Inr c'"
      by (simp add: deleteLegacyAssembly_def)
    from getProp_assignProp [OF a] e JObj assms(2) show ?thesis
      by (simp add: readObject_def map_of_deleteKey_other)
  qed (use assms(1) e in \<open>auto simp: deleteLegacyAssembly_def\<close>)
qed

lemma readObject_formatContract:
  assumes "formatContract inputConfig f n c = Inr c'" and "fld \<noteq> ''legacyAssembly''"
  shows "readObject c' fld = readObject c fld"
  using formatContract_cases [OF assms(1)] assms(2)
  by (auto dest: readObject_deleteLegacyAssembly)

lemma mapEntries_JObj_nth:
  assumes "mapEntries body (JObj es) = Inr v'" and "j < length es" and "es ! j = (k, x)"
  shows "\<exists>es' x'. v' = JObj es' \<and> length es' = length es \<and> es' ! j = (k, x') \<and> body k x = Inr x'"
proof -
  from assms(1) obtain u es' where
    fold: "foldEntries (\<lambda>u k x. thenE (body k x) (\<lambda>x'. Inr (u :: unit, x'))) () es = Inr (u, es')"
    and v': "v' = JObj es'"
    by (auto simp: mapEntries_def overEntries_def thenE_eq_Inr)
  from foldEntries_keys [OF fold] have keys: "map fst es' = map fst es" .
  then have len: "length es' = length es" by (metis length_map)
  from foldEntries_nth [OF fold assms(2)] assms(3) have b: "body k x = Inr (snd (es' ! j))"
    by (auto simp: thenE_eq_Inr)
  from keys assms(2,3) len have "fst (es' ! j) = k" by (metis fst_conv nth_map)
  then have "es' ! j = (k, snd (es' ! j))" by (metis prod.collapse)
  with v' len b show ?thesis by blast
qed

text \<open>
  The contract found at a position of the compiler output is found at the same position of
  the output of the loop and of the formatted output, with the bytecode fields the loop body
  gave it.
\<close>

lemma returned_contract:
  assumes run: "transpileContracts toBuf tr res = Inr res'"
      and contracts: "getProp res ''contracts'' = Inr (JObj files)"
      and i: "i < length files" and fi0: "files ! i = (f, JObj cs)"
      and j: "j < length cs" and contract: "cs ! j = (n, c)"
      and fmt: "formattedOutput res' inputConfig = Inr out"
  shows "\<exists>files' cs' c' r1 r2 c1.
           getProp out ''contracts'' = Inr (JObj files') \<and>
           files' ! i = (f, JObj cs') \<and> cs' ! j = (n, c') \<and>
           compileContract toBuf tr f r1 n c = Inr (r2, c1) \<and>
           readObject c' ''bytecode'' = readObject c1 ''bytecode'' \<and>
           readObject c' ''deployedBytecode'' = readObject c1 ''deployedBytecode''"
proof -
  from transpileContracts_pointwise [OF run contracts i fi0 j contract]
  obtain files1 cs1 c1 r1 r2 where
    g1: "getProp res' ''contracts'' = Inr (JObj files1)"
    and l1: "length files1 = length files" "files1 ! i = (f, JObj cs1)"
            "length cs1 = length cs" "cs1 ! j = (n, c1)"
    and cc: "compileContract toBuf tr f r1 n c = Inr (r2, c1)"
    by blast
  from fmt g1 obtain contracts2 where
    m: "mapEntries (\<lambda>filename. mapEntries (formatContract inputConfig filename)) (JObj files1)
          = Inr contracts2"
    and asg: "assignProp res' ''contracts'' contracts2 = Inr out"
    by (auto simp: formattedOutput_def updateProp_def thenE_eq_Inr)
  from i l1 have i1: "i < length files1" by simp
  from mapEntries_JObj_nth [OF m i1 l1(2)] obtain files2 fj2 where
    c2: "contracts2 = JObj files2" and f2: "files2 ! i = (f, fj2)"
    and mf: "mapEntries (formatContract inputConfig f) (JObj cs1) = Inr fj2"
    by blast
  from j l1 have j1: "j < length cs1" by simp
  from mapEntries_JObj_nth [OF mf j1 l1(4)] obtain cs2 c2' where
    fj2: "fj2 = JObj cs2" and cj: "cs2 ! j = (n, c2')"
    and fc: "formatContract inputConfig f n c1 = Inr c2'"
    by blast
  from getProp_assignProp [OF asg] c2 have "getProp out ''contracts'' = Inr (JObj files2)" by simp
  moreover from readObject_formatContract [OF fc]
  have "readObject c2' ''bytecode'' = readObject c1 ''bytecode''"
       "readObject c2' ''deployedBytecode'' = readObject c1 ''deployedBytecode''"
    by simp_all
  ultimately show ?thesis using f2 fj2 cj cc by blast
qed

section \<open>A rejected contract\<close>

lemma compileContract_writeBack:
  assumes "transpileContract toBuf tr c f n = Inr out"
      and "compileContract toBuf tr f r n c = Inr (r', c')"
  shows "writeBack c out = Inr c'"
  using assms by (auto simp: compileContract_def thenE_eq_Inr)

lemma transpileContract_errored:
  assumes obj: "readObject c ''bytecode'' = Inr (JStr obj)"
      and ob: "toBuf obj = Inr ob"
      and b: "getBytecode c False = Inr (JStr b)"
      and d: "getBytecode c True = Inr (JStr d)"
      and failed:
        "(b \<noteq> [] \<and> \<not> dep \<and>
            (\<exists>bb db. toBuf b = Inr bb \<and> toBuf d = Inr db \<and>
                     transpile tr bb db (length ob) = ErroredTranspilation errs)) \<or>
         (d \<noteq> [] \<and> dep \<and>
            (\<exists>db. toBuf d = Inr db \<and> transpileRawBytecode tr db = ErroredTranspilation errs \<and>
                  (b = [] \<or> (\<exists>bb out. toBuf b = Inr bb \<and>
                                transpile tr bb db (length ob) = SuccessfulTranspilation out))))"
  shows "transpileContract toBuf tr c f n =
           Inr (erroredOutput (getSolcErrorsFromTranspilerErrors errs f n dep))"
  using failed
  by (auto simp: transpileContract_unfold [OF obj b d] ob transpileDeployed_unfold)

lemma writeBack_errored:
  assumes "readObject c ''bytecode'' = Inr x" and "readObject c ''deployedBytecode'' = Inr y"
  shows "\<exists>c'. writeBack c (erroredOutput es) = Inr c' \<and>
              readObject c' ''bytecode'' = Inr (JStr []) \<and>
              readObject c' ''deployedBytecode'' = Inr (JStr [])"
proof -
  have "orEmpty (bytecode (erroredOutput es)) = JStr []"
       "orEmpty (deployedBytecode (erroredOutput es)) = JStr []"
    by (simp_all add: orEmpty_def erroredOutput_def)
  from writeBack_spec [OF assms this] show ?thesis by (simp add: remove0x_empty)
qed

text \<open>
  C1. When the transpiler rejects the constructor bytecode of a contract (the bytes
  \<^verbatim>\<open>hexStrToBuf\<close> makes of it), or accepts it (or is not asked, the constructor bytecode
  being empty) and rejects the deployed bytecode,
  \<^verbatim>\<open>transpileContract\<close> returns the list of errors and nothing else: no \<^verbatim>\<open>bytecode\<close> and no
  \<^verbatim>\<open>deployedBytecode\<close>. The loop of \<^verbatim>\<open>compile\<close> then writes the empty string into
  \<^verbatim>\<open>evm.bytecode.object\<close> and \<^verbatim>\<open>evm.deployedBytecode.object\<close> of that contract, and that is
  what the contract holds in the formatted output of the whole batch, the object whose text
  \<^verbatim>\<open>compile\<close> returns.
\<close>

theorem errored_contract_returns_no_bytecode:
  assumes obj: "readObject c ''bytecode'' = Inr (JStr obj)"
      and ob: "toBuf obj = Inr ob"
      and b: "getBytecode c False = Inr (JStr b)"
      and d: "getBytecode c True = Inr (JStr d)"
      and failed:
        "(b \<noteq> [] \<and> \<not> dep \<and>
            (\<exists>bb db. toBuf b = Inr bb \<and> toBuf d = Inr db \<and>
                     transpile tr bb db (length ob) = ErroredTranspilation errs)) \<or>
         (d \<noteq> [] \<and> dep \<and>
            (\<exists>db. toBuf d = Inr db \<and> transpileRawBytecode tr db = ErroredTranspilation errs \<and>
                  (b = [] \<or> (\<exists>bb out. toBuf b = Inr bb \<and>
                                transpile tr bb db (length ob) = SuccessfulTranspilation out))))"
  shows "transpileContract toBuf tr c f n =
           Inr \<lparr>bytecode = JUndefined, deployedBytecode = JUndefined,
                errors = JArr (getSolcErrorsFromTranspilerErrors errs f n dep)\<rparr> \<and>
         (\<exists>c'. writeBack c (erroredOutput (getSolcErrorsFromTranspilerErrors errs f n dep)) = Inr c' \<and>
               readObject c' ''bytecode'' = Inr (JStr []) \<and>
               readObject c' ''deployedBytecode'' = Inr (JStr [])) \<and>
         (\<forall>res res' files cs i j inputConfig out.
            transpileContracts toBuf tr res = Inr res' \<and>
            getProp res ''contracts'' = Inr (JObj files) \<and>
            i < length files \<and> files ! i = (f, JObj cs) \<and> j < length cs \<and> cs ! j = (n, c) \<and>
            formattedOutput res' inputConfig = Inr out \<longrightarrow>
            (\<exists>files' cs' c'.
               getProp out ''contracts'' = Inr (JObj files') \<and>
               files' ! i = (f, JObj cs') \<and> cs' ! j = (n, c') \<and>
               readObject c' ''bytecode'' = Inr (JStr []) \<and>
               readObject c' ''deployedBytecode'' = Inr (JStr [])))"
proof (intro conjI allI impI)
  let ?out = "erroredOutput (getSolcErrorsFromTranspilerErrors errs f n dep)"
  have tc: "transpileContract toBuf tr c f n = Inr ?out"
    using obj ob b d failed by (rule transpileContract_errored)
  then show "transpileContract toBuf tr c f n =
           Inr \<lparr>bytecode = JUndefined, deployedBytecode = JUndefined,
                errors = JArr (getSolcErrorsFromTranspilerErrors errs f n dep)\<rparr>"
    by (simp add: erroredOutput_def)
  from getBytecode_JStr_readObject [OF d] obtain y where
    y: "readObject c ''deployedBytecode'' = Inr y" by auto
  from writeBack_errored [OF obj y]
  obtain c1 where wb: "writeBack c ?out = Inr c1"
    and f1: "readObject c1 ''bytecode'' = Inr (JStr [])"
            "readObject c1 ''deployedBytecode'' = Inr (JStr [])"
    by blast
  then show "\<exists>c'. writeBack c ?out = Inr c' \<and> readObject c' ''bytecode'' = Inr (JStr []) \<and>
               readObject c' ''deployedBytecode'' = Inr (JStr [])"
    by blast
  fix res res' files cs i j inputConfig out
  assume a: "transpileContracts toBuf tr res = Inr res' \<and>
            getProp res ''contracts'' = Inr (JObj files) \<and>
            i < length files \<and> files ! i = (f, JObj cs) \<and> j < length cs \<and> cs ! j = (n, c) \<and>
            formattedOutput res' inputConfig = Inr out"
  have "\<exists>files' cs' c' r1 r2 c1.
           getProp out ''contracts'' = Inr (JObj files') \<and>
           files' ! i = (f, JObj cs') \<and> cs' ! j = (n, c') \<and>
           compileContract toBuf tr f r1 n c = Inr (r2, c1) \<and>
           readObject c' ''bytecode'' = readObject c1 ''bytecode'' \<and>
           readObject c' ''deployedBytecode'' = readObject c1 ''deployedBytecode''"
    by (rule returned_contract [of toBuf tr res res' files i f cs j n c inputConfig out])
       (use a in simp_all)
  then obtain files' cs' c' r1 r2 c2 where
    g: "getProp out ''contracts'' = Inr (JObj files')" "files' ! i = (f, JObj cs')" "cs' ! j = (n, c')"
    and cc: "compileContract toBuf tr f r1 n c = Inr (r2, c2)"
    and same: "readObject c' ''bytecode'' = readObject c2 ''bytecode''"
              "readObject c' ''deployedBytecode'' = readObject c2 ''deployedBytecode''"
    by blast
  from compileContract_writeBack [OF tc cc] wb have "c2 = c1" by simp
  with g f1 same show "\<exists>files' cs' c'.
               getProp out ''contracts'' = Inr (JObj files') \<and>
               files' ! i = (f, JObj cs') \<and> cs' ! j = (n, c') \<and>
               readObject c' ''bytecode'' = Inr (JStr []) \<and>
               readObject c' ''deployedBytecode'' = Inr (JStr [])"
    by simp
qed

theorem errored_contract_returns_no_bytecode_witness:
  "transpileContract exampleHexStrToBuf strictTranspiler exampleContractBad ''a.sol'' ''Bad'' =
     Inr \<lparr>bytecode = JUndefined, deployedBytecode = JUndefined, errors = JArr [exampleSolcError]\<rparr> \<and>
   transpileContracts exampleHexStrToBuf strictTranspiler exampleSolcOutput = Inr exampleTranspiledOutput \<and>
   formattedOutput exampleTranspiledOutput exampleConfig = Inr exampleFormattedOutput \<and>
   (\<exists>files' cs' c'.
      getProp exampleFormattedOutput ''contracts'' = Inr (JObj files') \<and>
      files' ! 0 = (''a.sol'', JObj cs') \<and> cs' ! 0 = (''Bad'', c') \<and>
      readObject c' ''bytecode'' = Inr (JStr []) \<and>
      readObject c' ''deployedBytecode'' = Inr (JStr []))"
proof -
  have failed:
    "(''60ff'' \<noteq> [] \<and> \<not> False \<and>
        (\<exists>bb db. exampleHexStrToBuf ''60ff'' = Inr bb \<and> exampleHexStrToBuf ''ff'' = Inr db \<and>
                 transpile strictTranspiler bb db (length [96 :: byte, 255, 161, 101])
                 = ErroredTranspilation [\<lparr>index = 1, message = ''disallowed opcode''\<rparr>])) \<or>
     (''ff'' \<noteq> [] \<and> False \<and>
        (\<exists>db. exampleHexStrToBuf ''ff'' = Inr db \<and>
              transpileRawBytecode strictTranspiler db
                = ErroredTranspilation [\<lparr>index = 1, message = ''disallowed opcode''\<rparr>] \<and>
              (''60ff'' = [] \<or> (\<exists>bb out. exampleHexStrToBuf ''60ff'' = Inr bb \<and>
                    transpile strictTranspiler bb db (length [96 :: byte, 255, 161, 101])
                    = SuccessfulTranspilation out))))"
    using strictTranspiler_bad example_decoded(2,3) by blast
  note t = errored_contract_returns_no_bytecode
             [OF exampleContractBad_facts(1) example_decoded(1) exampleContractBad_facts(2,3) failed,
              of "''a.sol''" "''Bad''"]
  have g: "getProp exampleSolcOutput ''contracts'' =
             Inr (JObj [(''a.sol'', JObj [(''Bad'', exampleContractBad), (''Good'', exampleContract)])])"
    by (simp add: exampleSolcOutput_def)
  from t have 1: "transpileContract exampleHexStrToBuf strictTranspiler exampleContractBad ''a.sol'' ''Bad'' =
     Inr \<lparr>bytecode = JUndefined, deployedBytecode = JUndefined, errors = JArr [exampleSolcError]\<rparr>"
    unfolding exampleSolcError_eq by (rule conjunct1)
  from t have "\<forall>res res' files cs i j inputConfig out.
            transpileContracts exampleHexStrToBuf strictTranspiler res = Inr res' \<and>
            getProp res ''contracts'' = Inr (JObj files) \<and>
            i < length files \<and> files ! i = (''a.sol'', JObj cs) \<and> j < length cs \<and>
            cs ! j = (''Bad'', exampleContractBad) \<and>
            formattedOutput res' inputConfig = Inr out \<longrightarrow>
            (\<exists>files' cs' c'.
               getProp out ''contracts'' = Inr (JObj files') \<and>
               files' ! i = (''a.sol'', JObj cs') \<and> cs' ! j = (''Bad'', c') \<and>
               readObject c' ''bytecode'' = Inr (JStr []) \<and>
               readObject c' ''deployedBytecode'' = Inr (JStr []))"
    by blast
  from this [rule_format, of exampleSolcOutput exampleTranspiledOutput
        "[(''a.sol'', JObj [(''Bad'', exampleContractBad), (''Good'', exampleContract)])]" 0
        "[(''Bad'', exampleContractBad), (''Good'', exampleContract)]" 0
        exampleConfig exampleFormattedOutput]
       example_batch_run example_formatted g
  have 2: "\<exists>files' cs' c'.
      getProp exampleFormattedOutput ''contracts'' = Inr (JObj files') \<and>
      files' ! 0 = (''a.sol'', JObj cs') \<and> cs' ! 0 = (''Bad'', c') \<and>
      readObject c' ''bytecode'' = Inr (JStr []) \<and>
      readObject c' ''deployedBytecode'' = Inr (JStr [])"
    by simp
  from 1 2 example_batch_run example_formatted show ?thesis by blast
qed

section \<open>Constructor first, deployed bytecode second\<close>

text \<open>
  C7, as stated, fails. With a transpiler that rejects both bytecodes of the example contract,
  \<^verbatim>\<open>transpileRawBytecode\<close> would reject the deployed bytecode with an error at index 1, but
  \<^verbatim>\<open>transpileContract\<close> returns after the failure of the constructor bytecode: its result
  holds the constructor's error alone, and the error of the deployed bytecode is not
  reported.
\<close>

theorem deployed_failure_not_reported:
  "exampleHexStrToBuf ''01'' = Inr [1] \<and>
   transpileRawBytecode rejectingTranspiler [1]
     = ErroredTranspilation [\<lparr>index = 1, message = ''deployed''\<rparr>] \<and>
   transpileContract exampleHexStrToBuf rejectingTranspiler exampleContract ''a.sol'' ''C''
     = Inr \<lparr>bytecode = JUndefined, deployedBytecode = JUndefined,
            errors = JArr [solcError ''general'' ''a.sol:C error [constructor] at index 0 of bytecode''
                             ''error'' ''CompilerError'']\<rparr> \<and>
   solcError ''general'' ''a.sol:C error [deployed] at index 1 of deployed bytecode''
       ''error'' ''CompilerError''
     \<notin> set [solcError ''general'' ''a.sol:C error [constructor] at index 0 of bytecode''
                ''error'' ''CompilerError'']"
  by code_simp

text \<open>
  C7, amended. For a contract with both a constructor bytecode and a deployed bytecode, which
  \<^verbatim>\<open>hexStrToBuf\<close> turns into bytes, the constructor bytecode is transpiled first (\<^verbatim>\<open>transpile\<close>, which is given both) and the
  deployed bytecode second (\<^verbatim>\<open>transpileRawBytecode\<close>). Either may fail, and the first
  failure ends the transpilation of the contract: a failure of the constructor bytecode
  returns its errors alone, marked as errors of the bytecode, whatever the deployed bytecode
  is; a failure of the deployed bytecode after a successful constructor returns its errors
  alone, marked as errors of the deployed bytecode; both bytecodes are returned only when
  both succeed.
\<close>

theorem first_failure_ends_contract:
  assumes obj: "readObject c ''bytecode'' = Inr (JStr obj)" and ob: "toBuf obj = Inr ob"
      and b: "getBytecode c False = Inr (JStr b)" and "b \<noteq> []" and bb: "toBuf b = Inr bb"
      and d: "getBytecode c True = Inr (JStr d)" and "d \<noteq> []" and db: "toBuf d = Inr db"
  shows "(\<forall>e1. transpile tr bb db (length ob) = ErroredTranspilation e1 \<longrightarrow>
            transpileContract toBuf tr c f n =
              Inr \<lparr>bytecode = JUndefined, deployedBytecode = JUndefined,
                   errors = JArr (getSolcErrorsFromTranspilerErrors e1 f n False)\<rparr>) \<and>
         (\<forall>o1 e2. transpile tr bb db (length ob) = SuccessfulTranspilation o1 \<and>
            transpileRawBytecode tr db = ErroredTranspilation e2 \<longrightarrow>
            transpileContract toBuf tr c f n =
              Inr \<lparr>bytecode = JUndefined, deployedBytecode = JUndefined,
                   errors = JArr (getSolcErrorsFromTranspilerErrors e2 f n True)\<rparr>) \<and>
         (\<forall>o1 o2. transpile tr bb db (length ob) = SuccessfulTranspilation o1 \<and>
            transpileRawBytecode tr db = SuccessfulTranspilation o2 \<longrightarrow>
            transpileContract toBuf tr c f n =
              Inr \<lparr>bytecode = JStr (bufToHexString o1), deployedBytecode = JStr (bufToHexString o2),
                   errors = JUndefined\<rparr>)"
  using assms(4,7)
  by (simp add: transpileContract_unfold [OF obj b d] ob bb db transpileDeployed_unfold
        erroredOutput_def)

theorem first_failure_ends_contract_witness:
  "transpileContract exampleHexStrToBuf rejectingTranspiler exampleContract ''a.sol'' ''C'' =
     Inr \<lparr>bytecode = JUndefined, deployedBytecode = JUndefined,
          errors = JArr (getSolcErrorsFromTranspilerErrors [\<lparr>index = 0, message = ''constructor''\<rparr>]
                           ''a.sol'' ''C'' False)\<rparr> \<and>
   transpileContract exampleHexStrToBuf rejectingDeployedTranspiler exampleContract ''a.sol'' ''C'' =
     Inr \<lparr>bytecode = JUndefined, deployedBytecode = JUndefined,
          errors = JArr (getSolcErrorsFromTranspilerErrors [\<lparr>index = 1, message = ''deployed''\<rparr>]
                           ''a.sol'' ''C'' True)\<rparr> \<and>
   transpileContract exampleHexStrToBuf acceptingTranspiler exampleContract ''a.sol'' ''C'' =
     Inr \<lparr>bytecode = JStr (bufToHexString [96, 1]),
          deployedBytecode = JStr (bufToHexString [1]),
          errors = JUndefined\<rparr>"
proof -
  have ne: "''6001'' \<noteq> []" "''01'' \<noteq> []" by simp_all
  note t = first_failure_ends_contract
             [OF exampleContract_facts(1) example_decoded(4) exampleContract_bytecodes(1) ne(1)
                 example_decoded(5) exampleContract_bytecodes(2) ne(2) example_decoded(6),
              of _ "''a.sol''" "''C''"]
  have 1: "transpile rejectingTranspiler [96, 1] [1] (length [96 :: byte, 1, 161, 101])
           = ErroredTranspilation [\<lparr>index = 0, message = ''constructor''\<rparr>]"
    by (simp add: rejectingTranspiler_def)
  have 2: "transpile rejectingDeployedTranspiler [96, 1] [1] (length [96 :: byte, 1, 161, 101])
           = SuccessfulTranspilation [96, 1] \<and>
           transpileRawBytecode rejectingDeployedTranspiler [1]
           = ErroredTranspilation [\<lparr>index = 1, message = ''deployed''\<rparr>]"
    by (simp add: rejectingDeployedTranspiler_def)
  have 3: "transpile acceptingTranspiler [96, 1] [1] (length [96 :: byte, 1, 161, 101])
           = SuccessfulTranspilation [96, 1] \<and>
           transpileRawBytecode acceptingTranspiler [1] = SuccessfulTranspilation [1]"
    by (simp add: acceptingTranspiler_def)
  from t [of rejectingTranspiler] 1 t [of rejectingDeployedTranspiler] 2
       t [of acceptingTranspiler] 3
  show ?thesis by blast
qed

section \<open>An accepted contract\<close>

lemma transpileContract_succeeded:
  assumes obj: "readObject c ''bytecode'' = Inr (JStr obj)"
      and ob: "toBuf obj = Inr ob"
      and b: "getBytecode c False = Inr (JStr b)"
      and d: "getBytecode c True = Inr (JStr d)"
      and some: "b \<noteq> [] \<or> d \<noteq> []"
      and okb: "b \<noteq> [] \<longrightarrow>
                  (\<exists>bb db. toBuf b = Inr bb \<and> toBuf d = Inr db \<and>
                           transpile tr bb db (length ob) = SuccessfulTranspilation o1)"
      and okd: "d \<noteq> [] \<longrightarrow>
                  (\<exists>db. toBuf d = Inr db \<and> transpileRawBytecode tr db = SuccessfulTranspilation o2)"
  shows "transpileContract toBuf tr c f n =
           Inr \<lparr>bytecode = JStr (if b \<noteq> [] then bufToHexString o1 else []),
                deployedBytecode = JStr (if d \<noteq> [] then bufToHexString o2 else []),
                errors = JUndefined\<rparr>"
  using some okb okd
  by (auto simp: transpileContract_unfold [OF obj b d] ob transpileDeployed_unfold)

lemma orEmpty_hex:
  "orEmpty (JStr (if b \<noteq> [] then bufToHexString o1 else [])) =
     JStr (if b \<noteq> [] then bufToHexString o1 else [])"
  by (simp add: orEmpty_def)

lemma remove0x_hex:
  "remove0x (if b \<noteq> [] then bufToHexString o1 else []) = (if b \<noteq> [] then hex_of_bytes o1 else [])"
  by (simp add: remove0x_bufToHexString remove0x_empty)

lemma is_hex_string_Nil: "is_hex_string []"
  by (simp add: is_hex_string_def)

text \<open>
  C8. When the transpiler accepts every bytecode of a contract it is asked about (the
  constructor bytecode if it is not empty, the deployed bytecode if it is not empty, and at
  least one of them is not; the transpiler is given the bytes \<^verbatim>\<open>hexStrToBuf\<close> makes of
  them), \<^verbatim>\<open>transpileContract\<close> returns no errors and the loop of \<^verbatim>\<open>compile\<close> replaces
  \<^verbatim>\<open>evm.bytecode.object\<close> and \<^verbatim>\<open>evm.deployedBytecode.object\<close> of the contract by the
  transpiled bytecode in hexadecimal (the empty string for an empty bytecode): every
  character is a hexadecimal digit and there is no leading \<^verbatim>\<open>0x\<close>. That is what the contract
  holds in the formatted output of the whole batch; and when the configuration is JSON and
  passes the validation, and the answer of the compiler is JSON without an error of severity
  \<^verbatim>\<open>error\<close>, the text of that formatted output is what \<^verbatim>\<open>compile\<close> returns.
\<close>

theorem transpiled_bytecode_written_as_hex:
  assumes obj: "readObject c ''bytecode'' = Inr (JStr obj)"
      and ob: "toBuf obj = Inr ob"
      and b: "getBytecode c False = Inr (JStr b)"
      and d: "getBytecode c True = Inr (JStr d)"
      and some: "b \<noteq> [] \<or> d \<noteq> []"
      and okb: "b \<noteq> [] \<longrightarrow>
                  (\<exists>bb db. toBuf b = Inr bb \<and> toBuf d = Inr db \<and>
                           transpile tr bb db (length ob) = SuccessfulTranspilation o1)"
      and okd: "d \<noteq> [] \<longrightarrow>
                  (\<exists>db. toBuf d = Inr db \<and> transpileRawBytecode tr db = SuccessfulTranspilation o2)"
      and hexB: "hexB = (if b \<noteq> [] then hex_of_bytes o1 else [])"
      and hexD: "hexD = (if d \<noteq> [] then hex_of_bytes o2 else [])"
  shows "(\<exists>out c'. transpileContract toBuf tr c f n = Inr out \<and> errors out = JUndefined \<and>
            writeBack c out = Inr c' \<and>
            readObject c' ''bytecode'' = Inr (JStr hexB) \<and>
            readObject c' ''deployedBytecode'' = Inr (JStr hexD)) \<and>
         is_hex_string hexB \<and> \<not> prefix ''0x'' hexB \<and>
         is_hex_string hexD \<and> \<not> prefix ''0x'' hexD \<and>
         (\<forall>res res' files cs i j inputConfig out.
            transpileContracts toBuf tr res = Inr res' \<and>
            getProp res ''contracts'' = Inr (JObj files) \<and>
            i < length files \<and> files ! i = (f, JObj cs) \<and> j < length cs \<and> cs ! j = (n, c) \<and>
            formattedOutput res' inputConfig = Inr out \<longrightarrow>
            (\<exists>files' cs' c'.
               getProp out ''contracts'' = Inr (JObj files') \<and>
               files' ! i = (f, JObj cs') \<and> cs' ! j = (n, c') \<and>
               readObject c' ''bytecode'' = Inr (JStr hexB) \<and>
               readObject c' ''deployedBytecode'' = Inr (JStr hexD))) \<and>
         (\<forall>D s cb json cfg res addr files cs i j res' out.
            JSON_parse D s = Some json \<and> getInputErrors D json = Inr None \<and>
            getSolcConfig D json = Inr cfg \<and>
            JSON_parse D (solc_compile D cfg cb) = Some res \<and> hasSolcErrors res = Inr False \<and>
            getExecutionManagerAddress (EXECUTION_MANAGER_ADDRESS D) json = Inr addr \<and>
            hexStrToBuf D = toBuf \<and> TranspilerImpl D addr = tr \<and>
            getProp res ''contracts'' = Inr (JObj files) \<and>
            i < length files \<and> files ! i = (f, JObj cs) \<and> j < length cs \<and> cs ! j = (n, c) \<and>
            transpileContracts toBuf tr res = Inr res' \<and> formattedOutput res' json = Inr out \<longrightarrow>
            compile D s cb = Inr (JSON_stringify D out) \<and>
            (\<exists>files' cs' c'.
               getProp out ''contracts'' = Inr (JObj files') \<and>
               files' ! i = (f, JObj cs') \<and> cs' ! j = (n, c') \<and>
               readObject c' ''bytecode'' = Inr (JStr hexB) \<and>
               readObject c' ''deployedBytecode'' = Inr (JStr hexD)))"
proof -
  let ?out = "\<lparr>bytecode = JStr (if b \<noteq> [] then bufToHexString o1 else []),
                deployedBytecode = JStr (if d \<noteq> [] then bufToHexString o2 else []),
                errors = JUndefined\<rparr>"
  have tc: "transpileContract toBuf tr c f n = Inr ?out"
    using obj ob b d some okb okd by (rule transpileContract_succeeded)
  from getBytecode_JStr_readObject [OF d] obtain y where
    y: "readObject c ''deployedBytecode'' = Inr y" by auto
  have "orEmpty (bytecode ?out) = JStr (if b \<noteq> [] then bufToHexString o1 else [])"
       "orEmpty (deployedBytecode ?out) = JStr (if d \<noteq> [] then bufToHexString o2 else [])"
    by (simp_all add: orEmpty_hex)
  from writeBack_spec [OF obj y this]
  obtain c1 where wb: "writeBack c ?out = Inr c1"
    and f1: "readObject c1 ''bytecode'' = Inr (JStr hexB)"
            "readObject c1 ''deployedBytecode'' = Inr (JStr hexD)"
    unfolding remove0x_hex hexB hexD by blast
  from tc wb f1
  have 1: "\<exists>out c'. transpileContract toBuf tr c f n = Inr out \<and> errors out = JUndefined \<and>
            writeBack c out = Inr c' \<and>
            readObject c' ''bytecode'' = Inr (JStr hexB) \<and>
            readObject c' ''deployedBytecode'' = Inr (JStr hexD)"
    by (intro exI [of _ ?out] exI [of _ c1]) simp
  have hb: "is_hex_string hexB" and hd: "is_hex_string hexD"
    unfolding hexB hexD by (simp_all add: hex_of_bytes_is_hex is_hex_string_Nil)
  from hb have nb: "\<not> prefix ''0x'' hexB" by (rule hex_string_no_prefix)
  from hd have nd: "\<not> prefix ''0x'' hexD" by (rule hex_string_no_prefix)
  have found: "\<exists>files' cs' c'.
               getProp out ''contracts'' = Inr (JObj files') \<and>
               files' ! i = (f, JObj cs') \<and> cs' ! j = (n, c') \<and>
               readObject c' ''bytecode'' = Inr (JStr hexB) \<and>
               readObject c' ''deployedBytecode'' = Inr (JStr hexD)"
    if a: "transpileContracts toBuf tr res = Inr res' \<and>
            getProp res ''contracts'' = Inr (JObj files) \<and>
            i < length files \<and> files ! i = (f, JObj cs) \<and> j < length cs \<and> cs ! j = (n, c) \<and>
            formattedOutput res' inputConfig = Inr out"
    for res res' files cs i j inputConfig out
  proof -
    have "\<exists>files' cs' c' r1 r2 c1.
             getProp out ''contracts'' = Inr (JObj files') \<and>
             files' ! i = (f, JObj cs') \<and> cs' ! j = (n, c') \<and>
             compileContract toBuf tr f r1 n c = Inr (r2, c1) \<and>
             readObject c' ''bytecode'' = readObject c1 ''bytecode'' \<and>
             readObject c' ''deployedBytecode'' = readObject c1 ''deployedBytecode''"
      by (rule returned_contract [of toBuf tr res res' files i f cs j n c inputConfig out])
         (use a in simp_all)
    then obtain files' cs' c' r1 r2 c2 where
      g: "getProp out ''contracts'' = Inr (JObj files')" "files' ! i = (f, JObj cs')" "cs' ! j = (n, c')"
      and cc: "compileContract toBuf tr f r1 n c = Inr (r2, c2)"
      and same: "readObject c' ''bytecode'' = readObject c2 ''bytecode''"
                "readObject c' ''deployedBytecode'' = readObject c2 ''deployedBytecode''"
      by blast
    from compileContract_writeBack [OF tc cc] wb have "c2 = c1" by simp
    with g f1 same show ?thesis by simp
  qed
  have returned: "compile D s cb = Inr (JSON_stringify D out) \<and>
            (\<exists>files' cs' c'.
               getProp out ''contracts'' = Inr (JObj files') \<and>
               files' ! i = (f, JObj cs') \<and> cs' ! j = (n, c') \<and>
               readObject c' ''bytecode'' = Inr (JStr hexB) \<and>
               readObject c' ''deployedBytecode'' = Inr (JStr hexD))"
    if a: "JSON_parse D s = Some json \<and> getInputErrors D json = Inr None \<and>
            getSolcConfig D json = Inr cfg \<and>
            JSON_parse D (solc_compile D cfg cb) = Some res \<and> hasSolcErrors res = Inr False \<and>
            getExecutionManagerAddress (EXECUTION_MANAGER_ADDRESS D) json = Inr addr \<and>
            hexStrToBuf D = toBuf \<and> TranspilerImpl D addr = tr \<and>
            getProp res ''contracts'' = Inr (JObj files) \<and>
            i < length files \<and> files ! i = (f, JObj cs) \<and> j < length cs \<and> cs ! j = (n, c) \<and>
            transpileContracts toBuf tr res = Inr res' \<and> formattedOutput res' json = Inr out"
    for D :: "'cb collaborators" and s cb json cfg res addr files cs i j res' out
  proof
    have "compile D s cb =
           thenE (transpileContracts (hexStrToBuf D) (TranspilerImpl D addr) res) (\<lambda>res'.
           thenE (formattedOutput res' json) (\<lambda>out. Inr (JSON_stringify D out)))"
      by (rule compile_reaches_loop [of D s json cfg cb res addr]) (use a in simp_all)
    with a show "compile D s cb = Inr (JSON_stringify D out)" by simp
    from a have "transpileContracts toBuf tr res = Inr res' \<and>
            getProp res ''contracts'' = Inr (JObj files) \<and>
            i < length files \<and> files ! i = (f, JObj cs) \<and> j < length cs \<and> cs ! j = (n, c) \<and>
            formattedOutput res' json = Inr out"
      by simp
    then show "\<exists>files' cs' c'.
               getProp out ''contracts'' = Inr (JObj files') \<and>
               files' ! i = (f, JObj cs') \<and> cs' ! j = (n, c') \<and>
               readObject c' ''bytecode'' = Inr (JStr hexB) \<and>
               readObject c' ''deployedBytecode'' = Inr (JStr hexD)"
      by (rule found)
  qed
  have F: "\<forall>res res' files cs i j inputConfig out.
            transpileContracts toBuf tr res = Inr res' \<and>
            getProp res ''contracts'' = Inr (JObj files) \<and>
            i < length files \<and> files ! i = (f, JObj cs) \<and> j < length cs \<and> cs ! j = (n, c) \<and>
            formattedOutput res' inputConfig = Inr out \<longrightarrow>
            (\<exists>files' cs' c'.
               getProp out ''contracts'' = Inr (JObj files') \<and>
               files' ! i = (f, JObj cs') \<and> cs' ! j = (n, c') \<and>
               readObject c' ''bytecode'' = Inr (JStr hexB) \<and>
               readObject c' ''deployedBytecode'' = Inr (JStr hexD))"
    by (intro allI impI) (erule found)
  have R: "\<forall>(D :: 'cb collaborators) s cb json cfg res addr files cs i j res' out.
            JSON_parse D s = Some json \<and> getInputErrors D json = Inr None \<and>
            getSolcConfig D json = Inr cfg \<and>
            JSON_parse D (solc_compile D cfg cb) = Some res \<and> hasSolcErrors res = Inr False \<and>
            getExecutionManagerAddress (EXECUTION_MANAGER_ADDRESS D) json = Inr addr \<and>
            hexStrToBuf D = toBuf \<and> TranspilerImpl D addr = tr \<and>
            getProp res ''contracts'' = Inr (JObj files) \<and>
            i < length files \<and> files ! i = (f, JObj cs) \<and> j < length cs \<and> cs ! j = (n, c) \<and>
            transpileContracts toBuf tr res = Inr res' \<and> formattedOutput res' json = Inr out \<longrightarrow>
            compile D s cb = Inr (JSON_stringify D out) \<and>
            (\<exists>files' cs' c'.
               getProp out ''contracts'' = Inr (JObj files') \<and>
               files' ! i = (f, JObj cs') \<and> cs' ! j = (n, c') \<and>
               readObject c' ''bytecode'' = Inr (JStr hexB) \<and>
               readObject c' ''deployedBytecode'' = Inr (JStr hexD))"
    by (intro allI impI) (erule returned)
  from 1 hb nb hd nd F R show ?thesis by (intro conjI)
qed

theorem transpiled_bytecode_written_as_hex_witness:
  "transpileContracts exampleHexStrToBuf strictTranspiler exampleSolcOutput = Inr exampleTranspiledOutput \<and>
   formattedOutput exampleTranspiledOutput exampleConfig = Inr exampleFormattedOutput \<and>
   compile exampleCollaborators (showJson exampleConfig) None = Inr (showJson exampleFormattedOutput) \<and>
   (\<exists>files' cs' c'.
      getProp exampleFormattedOutput ''contracts'' = Inr (JObj files') \<and>
      files' ! 0 = (''a.sol'', JObj cs') \<and> cs' ! 1 = (''Good'', c') \<and>
      readObject c' ''bytecode'' = Inr (JStr ''6001'') \<and>
      readObject c' ''deployedBytecode'' = Inr (JStr ''01'')) \<and>
   is_hex_string ''6001'' \<and> \<not> prefix ''0x'' ''6001''"
proof -
  have hx: "''6001'' = (if ''6001'' \<noteq> [] then hex_of_bytes [96, 1] else [])"
           "''01'' = (if ''01'' \<noteq> [] then hex_of_bytes [1] else [])"
    by code_simp+
  have some: "''6001'' \<noteq> [] \<or> ''01'' \<noteq> []" by simp
  have okb: "''6001'' \<noteq> [] \<longrightarrow>
               (\<exists>bb db. exampleHexStrToBuf ''6001'' = Inr bb \<and> exampleHexStrToBuf ''01'' = Inr db \<and>
                        transpile strictTranspiler bb db (length [96 :: byte, 1, 161, 101])
                        = SuccessfulTranspilation [96, 1])"
    using strictTranspiler_good(1) example_decoded(5,6) by blast
  have okd: "''01'' \<noteq> [] \<longrightarrow>
               (\<exists>db. exampleHexStrToBuf ''01'' = Inr db \<and>
                     transpileRawBytecode strictTranspiler db = SuccessfulTranspilation [1])"
    using strictTranspiler_good(2) example_decoded(6) by blast
  note t = transpiled_bytecode_written_as_hex
             [OF exampleContract_facts(1) example_decoded(4) exampleContract_bytecodes some okb okd hx,
              of "''a.sol''" "''Good''"]
  from example_config_accepted obtain cfg where
    cfg: "getSolcConfig exampleCollaborators exampleConfig = Inr cfg" ..
  from t have "\<forall>D s cb json cfg res addr files cs i j res' out.
            JSON_parse D s = Some json \<and> getInputErrors D json = Inr None \<and>
            getSolcConfig D json = Inr cfg \<and>
            JSON_parse D (solc_compile D cfg cb) = Some res \<and> hasSolcErrors res = Inr False \<and>
            getExecutionManagerAddress (EXECUTION_MANAGER_ADDRESS D) json = Inr addr \<and>
            hexStrToBuf D = exampleHexStrToBuf \<and> TranspilerImpl D addr = strictTranspiler \<and>
            getProp res ''contracts'' = Inr (JObj files) \<and>
            i < length files \<and> files ! i = (''a.sol'', JObj cs) \<and> j < length cs \<and>
            cs ! j = (''Good'', exampleContract) \<and>
            transpileContracts exampleHexStrToBuf strictTranspiler res = Inr res' \<and>
            formattedOutput res' json = Inr out \<longrightarrow>
            compile D s cb = Inr (JSON_stringify D out) \<and>
            (\<exists>files' cs' c'.
               getProp out ''contracts'' = Inr (JObj files') \<and>
               files' ! i = (''a.sol'', JObj cs') \<and> cs' ! j = (''Good'', c') \<and>
               readObject c' ''bytecode'' = Inr (JStr ''6001'') \<and>
               readObject c' ''deployedBytecode'' = Inr (JStr ''01''))"
    by (elim conjE)
  from this [rule_format, of exampleCollaborators "showJson exampleConfig" exampleConfig cfg None
        exampleSolcOutput "JStr exampleAddress"
        "[(''a.sol'', JObj [(''Bad'', exampleContractBad), (''Good'', exampleContract)])]" 0
        "[(''Bad'', exampleContractBad), (''Good'', exampleContract)]" 1
        exampleTranspiledOutput exampleFormattedOutput]
       example_reaches_loop cfg example_batch_run example_formatted
  have 2: "compile exampleCollaborators (showJson exampleConfig) None
             = Inr (JSON_stringify exampleCollaborators exampleFormattedOutput) \<and>
          (\<exists>files' cs' c'.
      getProp exampleFormattedOutput ''contracts'' = Inr (JObj files') \<and>
      files' ! 0 = (''a.sol'', JObj cs') \<and> cs' ! 1 = (''Good'', c') \<and>
      readObject c' ''bytecode'' = Inr (JStr ''6001'') \<and>
      readObject c' ''deployedBytecode'' = Inr (JStr ''01''))"
    by simp
  have 3: "JSON_stringify exampleCollaborators = showJson" by (simp add: exampleCollaborators_def)
  from t have "is_hex_string ''6001'' \<and> \<not> prefix ''0x'' ''6001''" by blast
  with 2 3 example_batch_run example_formatted show ?thesis by simp
qed

section \<open>Defective input\<close>

text \<open>A configuration that is not JSON goes to the compiler, and its answer is returned.\<close>

lemma compile_unparseable:
  "JSON_parse D s = None \<Longrightarrow> compile D s cb = Inr (solc_compile D s None)"
  by (simp add: compile_def)

lemma getInputErrors_collaborators:
  "getInputErrors (D\<lparr>solc_compile := sc, TranspilerImpl := ti, hexStrToBuf := h\<rparr>) json
     = getInputErrors D json"
  by (simp add: getInputErrors_def cong: if_cong)

lemma errorList_formattedSolcError:
  "errorList (formattedSolcError msg) = [solcError ''general'' msg ''error'' ''JSONError'']"
  by (simp add: errorList_def formattedSolcError_def)

text \<open>
  Where the validation recognises the defect: for a configuration that is an object without a
  settings object, or whose execution manager address (from the settings or the environment)
  is absent or not valid, or whose \<^verbatim>\<open>outputSelection\<close> is absent, not an object, empty or
  rejected by the loop over its entries, \<^verbatim>\<open>getInputErrors\<close> returns the text of an object
  with a single error, and \<^verbatim>\<open>compile\<close> returns that text whatever the compiler, the
  transpiler and the hexadecimal decoder are: none of them is consulted. (\<^verbatim>\<open>JSON.stringify\<close>
  never returns the empty string for an object; the lemma assumes it of the collaborator.)
\<close>

lemma recognised_defects_fail_fast:
  assumes parse: "JSON_parse D s = Some json"
      and nonempty: "JSON_stringify D (formattedSolcError msg) \<noteq> []"
      and st: "getProp json ''settings'' = Inr st"
      and defect:
        "((\<not> truthy st \<or> \<not> typeof_object st) \<and> msg = settingsMessage) \<or>
         (truthy st \<and> typeof_object st \<and>
            (\<exists>a. getExecutionManagerAddress (EXECUTION_MANAGER_ADDRESS D) json = Inr a \<and>
                 (\<not> truthy a \<or> (\<exists>x. a = JStr x \<and> \<not> isValidHexAddress D x))) \<and>
            msg = addressMessage) \<or>
         (truthy st \<and> typeof_object st \<and>
            (\<exists>x. getExecutionManagerAddress (EXECUTION_MANAGER_ADDRESS D) json = Inr (JStr x) \<and>
                 x \<noteq> [] \<and> isValidHexAddress D x) \<and>
            (\<exists>os. getProp st ''outputSelection'' = Inr os \<and>
                 ((\<not> truthy os \<or> \<not> typeof_object os \<or> Object_entries os = Inr []) \<and>
                    msg = populatedMessage \<or>
                  truthy os \<and> typeof_object os \<and>
                    (\<exists>es. Object_entries os = Inr es \<and> es \<noteq> [] \<and>
                          checkOutputSelection os es = Inr (Some msg)))))"
  shows "getInputErrors D json = Inr (Some (JSON_stringify D (formattedSolcError msg))) \<and>
         length (errorList (formattedSolcError msg)) = 1 \<and>
         compile D s cb = Inr (JSON_stringify D (formattedSolcError msg)) \<and>
         (\<forall>sc ti h. compile (D\<lparr>solc_compile := sc, TranspilerImpl := ti, hexStrToBuf := h\<rparr>) s cb
                       = Inr (JSON_stringify D (formattedSolcError msg)))"
proof -
  from defect consider
      (settings) "\<not> truthy st \<or> \<not> typeof_object st" "msg = settingsMessage"
    | (address) a where "truthy st" "typeof_object st" "msg = addressMessage"
        "getExecutionManagerAddress (EXECUTION_MANAGER_ADDRESS D) json = Inr a"
        "\<not> truthy a \<or> (\<exists>x. a = JStr x \<and> \<not> isValidHexAddress D x)"
    | (populated) x os where "truthy st" "typeof_object st"
        "getExecutionManagerAddress (EXECUTION_MANAGER_ADDRESS D) json = Inr (JStr x)"
        "x \<noteq> []" "isValidHexAddress D x" "getProp st ''outputSelection'' = Inr os"
        "\<not> truthy os \<or> \<not> typeof_object os \<or> Object_entries os = Inr []" "msg = populatedMessage"
    | (form) x os es where "truthy st" "typeof_object st"
        "getExecutionManagerAddress (EXECUTION_MANAGER_ADDRESS D) json = Inr (JStr x)"
        "x \<noteq> []" "isValidHexAddress D x" "getProp st ''outputSelection'' = Inr os"
        "truthy os" "typeof_object os" "Object_entries os = Inr es" "es \<noteq> []"
        "checkOutputSelection os es = Inr (Some msg)"
    by blast
  then have g: "getInputErrors D json = Inr (Some (JSON_stringify D (formattedSolcError msg)))"
  proof cases
    case settings
    with st show ?thesis
      by (simp add: getInputErrors_def getFormattedSolcErrorOutput_def)
  next
    case address
    with st show ?thesis
      by (auto simp: getInputErrors_def getFormattedSolcErrorOutput_def onString_def)
  next
    case populated
    with st show ?thesis
      by (auto simp: getInputErrors_def getFormattedSolcErrorOutput_def onString_def)
  next
    case form
    with st show ?thesis
      by (simp add: getInputErrors_def getFormattedSolcErrorOutput_def onString_def)
  qed
  have c: "compile (D\<lparr>solc_compile := sc, TranspilerImpl := ti, hexStrToBuf := h\<rparr>) s cb
             = Inr (JSON_stringify D (formattedSolcError msg))" for sc ti h
    using parse nonempty g
    by (simp add: compile_def getInputErrors_collaborators)
  have "compile D s cb = Inr (JSON_stringify D (formattedSolcError msg))"
    using parse nonempty g by (simp add: compile_def)
  with g c show ?thesis by (simp add: errorList_formattedSolcError)
qed

lemma showJson_formattedSolcError: "showJson (formattedSolcError msg) \<noteq> []"
  by (simp add: formattedSolcError_def)

lemma example_defects:
  "exampleParseAll (showJson exampleConfigNoSettings) = Some exampleConfigNoSettings"
  "exampleParseAll (showJson exampleConfigBadAddress) = Some exampleConfigBadAddress"
  "exampleParseAll (showJson exampleConfigBadSelection) = Some exampleConfigBadSelection"
  "getProp exampleConfigNoSettings ''settings'' = Inr JUndefined"
  "getProp exampleConfigBadAddress ''settings'' =
     Inr (JObj [(''executionManagerAddress'', JStr ''0x1234''),
                (''outputSelection'', JObj [(''*'', JObj [(''*'', JArr [JStr ''*''])])])])"
  "getProp exampleConfigBadSelection ''settings'' =
     Inr (JObj [(''executionManagerAddress'', JStr exampleAddress),
                (''outputSelection'', JObj [(''a.sol'', JArr [JStr ''abi''])])])"
  "getExecutionManagerAddress None exampleConfigBadAddress = Inr (JStr ''0x1234'')"
  "\<not> exampleIsValidHexAddress ''0x1234''"
  "getExecutionManagerAddress None exampleConfigBadSelection = Inr (JStr exampleAddress)"
  "exampleAddress \<noteq> []"
  "exampleIsValidHexAddress exampleAddress"
  "checkOutputSelection (JObj [(''a.sol'', JArr [JStr ''abi''])]) [(''a.sol'', JArr [JStr ''abi''])]
     = Inr (Some formMessage)"
  by code_simp+

lemma recognised_defects_examples:
  "compile (exampleCollaborators\<lparr>JSON_parse := exampleParseAll\<rparr>) (showJson exampleConfigNoSettings) None
     = Inr (showJson (formattedSolcError settingsMessage)) \<and>
   compile (exampleCollaborators\<lparr>JSON_parse := exampleParseAll\<rparr>) (showJson exampleConfigBadAddress) None
     = Inr (showJson (formattedSolcError addressMessage)) \<and>
   compile (exampleCollaborators\<lparr>JSON_parse := exampleParseAll\<rparr>) (showJson exampleConfigBadSelection) None
     = Inr (showJson (formattedSolcError formMessage)) \<and>
   length (errorList (formattedSolcError formMessage)) = 1"
proof -
  let ?D = "exampleCollaborators\<lparr>JSON_parse := exampleParseAll\<rparr>"
  have sel: "JSON_parse ?D = exampleParseAll" "JSON_stringify ?D = showJson"
    "EXECUTION_MANAGER_ADDRESS ?D = None" "isValidHexAddress ?D = exampleIsValidHexAddress"
    by (simp_all add: exampleCollaborators_def)
  have ne: "JSON_stringify ?D (formattedSolcError m) \<noteq> []" for m
    unfolding sel by (rule showJson_formattedSolcError)
  have 1: "compile ?D (showJson exampleConfigNoSettings) None
             = Inr (showJson (formattedSolcError settingsMessage))"
  proof -
    have d: "((\<not> truthy JUndefined \<or> \<not> typeof_object JUndefined) \<and> settingsMessage = settingsMessage) \<or>
         (truthy JUndefined \<and> typeof_object JUndefined \<and>
            (\<exists>a. getExecutionManagerAddress (EXECUTION_MANAGER_ADDRESS ?D) exampleConfigNoSettings = Inr a \<and>
                 (\<not> truthy a \<or> (\<exists>x. a = JStr x \<and> \<not> isValidHexAddress ?D x))) \<and>
            settingsMessage = addressMessage) \<or>
         (truthy JUndefined \<and> typeof_object JUndefined \<and>
            (\<exists>x. getExecutionManagerAddress (EXECUTION_MANAGER_ADDRESS ?D) exampleConfigNoSettings = Inr (JStr x) \<and>
                 x \<noteq> [] \<and> isValidHexAddress ?D x) \<and>
            (\<exists>os. getProp JUndefined ''outputSelection'' = Inr os \<and>
                 ((\<not> truthy os \<or> \<not> typeof_object os \<or> Object_entries os = Inr []) \<and>
                    settingsMessage = populatedMessage \<or>
                  truthy os \<and> typeof_object os \<and>
                    (\<exists>es. Object_entries os = Inr es \<and> es \<noteq> [] \<and>
                          checkOutputSelection os es = Inr (Some settingsMessage)))))"
      by simp
    from recognised_defects_fail_fast [of ?D, OF _ ne example_defects(4) d, of "showJson exampleConfigNoSettings" None]
         example_defects(1) sel
    show ?thesis by simp
  qed
  have 2: "compile ?D (showJson exampleConfigBadAddress) None
             = Inr (showJson (formattedSolcError addressMessage))"
  proof -
    let ?st = "JObj [(''executionManagerAddress'', JStr ''0x1234''),
                (''outputSelection'', JObj [(''*'', JObj [(''*'', JArr [JStr ''*''])])])]"
    have "getExecutionManagerAddress (EXECUTION_MANAGER_ADDRESS ?D) exampleConfigBadAddress
            = Inr (JStr ''0x1234'') \<and> \<not> isValidHexAddress ?D ''0x1234''"
      unfolding sel using example_defects(7,8) by simp
    then have d: "((\<not> truthy ?st \<or> \<not> typeof_object ?st) \<and> addressMessage = settingsMessage) \<or>
         (truthy ?st \<and> typeof_object ?st \<and>
            (\<exists>a. getExecutionManagerAddress (EXECUTION_MANAGER_ADDRESS ?D) exampleConfigBadAddress = Inr a \<and>
                 (\<not> truthy a \<or> (\<exists>x. a = JStr x \<and> \<not> isValidHexAddress ?D x))) \<and>
            addressMessage = addressMessage) \<or>
         (truthy ?st \<and> typeof_object ?st \<and>
            (\<exists>x. getExecutionManagerAddress (EXECUTION_MANAGER_ADDRESS ?D) exampleConfigBadAddress = Inr (JStr x) \<and>
                 x \<noteq> [] \<and> isValidHexAddress ?D x) \<and>
            (\<exists>os. getProp ?st ''outputSelection'' = Inr os \<and>
                 ((\<not> truthy os \<or> \<not> typeof_object os \<or> Object_entries os = Inr []) \<and>
                    addressMessage = populatedMessage \<or>
                  truthy os \<and> typeof_object os \<and>
                    (\<exists>es. Object_entries os = Inr es \<and> es \<noteq> [] \<and>
                          checkOutputSelection os es = Inr (Some addressMessage)))))"
      by (intro disjI2 disjI1 conjI exI [of _ "JStr ''0x1234''"]) auto
    from recognised_defects_fail_fast [of ?D, OF _ ne example_defects(5) d, of "showJson exampleConfigBadAddress" None]
         example_defects(2) sel
    show ?thesis by simp
  qed
  have 3: "compile ?D (showJson exampleConfigBadSelection) None
             = Inr (showJson (formattedSolcError formMessage)) \<and>
           length (errorList (formattedSolcError formMessage)) = 1"
  proof -
    let ?os = "JObj [(''a.sol'', JArr [JStr ''abi''])]"
    let ?st = "JObj [(''executionManagerAddress'', JStr exampleAddress), (''outputSelection'', ?os)]"
    have a: "getExecutionManagerAddress (EXECUTION_MANAGER_ADDRESS ?D) exampleConfigBadSelection
            = Inr (JStr exampleAddress) \<and> exampleAddress \<noteq> [] \<and> isValidHexAddress ?D exampleAddress"
      unfolding sel using example_defects(9,10,11) by simp
    have o: "getProp ?st ''outputSelection'' = Inr ?os \<and> truthy ?os \<and> typeof_object ?os \<and>
             Object_entries ?os = Inr [(''a.sol'', JArr [JStr ''abi''])] \<and>
             [(''a.sol'', JArr [JStr ''abi''])] \<noteq> [] \<and>
             checkOutputSelection ?os [(''a.sol'', JArr [JStr ''abi''])] = Inr (Some formMessage)"
      using example_defects(12) by simp
    have d: "((\<not> truthy ?st \<or> \<not> typeof_object ?st) \<and> formMessage = settingsMessage) \<or>
         (truthy ?st \<and> typeof_object ?st \<and>
            (\<exists>a. getExecutionManagerAddress (EXECUTION_MANAGER_ADDRESS ?D) exampleConfigBadSelection = Inr a \<and>
                 (\<not> truthy a \<or> (\<exists>x. a = JStr x \<and> \<not> isValidHexAddress ?D x))) \<and>
            formMessage = addressMessage) \<or>
         (truthy ?st \<and> typeof_object ?st \<and>
            (\<exists>x. getExecutionManagerAddress (EXECUTION_MANAGER_ADDRESS ?D) exampleConfigBadSelection = Inr (JStr x) \<and>
                 x \<noteq> [] \<and> isValidHexAddress ?D x) \<and>
            (\<exists>os. getProp ?st ''outputSelection'' = Inr os \<and>
                 ((\<not> truthy os \<or> \<not> typeof_object os \<or> Object_entries os = Inr []) \<and>
                    formMessage = populatedMessage \<or>
                  truthy os \<and> typeof_object os \<and>
                    (\<exists>es. Object_entries os = Inr es \<and> es \<noteq> [] \<and>
                          checkOutputSelection os es = Inr (Some formMessage)))))"
      apply (intro disjI2 conjI)
        apply simp
       apply simp
      using a apply blast
      using o apply blast
      done
    from recognised_defects_fail_fast [of ?D, OF _ ne example_defects(6) d, of "showJson exampleConfigBadSelection" None]
         example_defects(3) sel
    show ?thesis by simp
  qed
  from 1 2 3 show ?thesis by blast
qed

text \<open>
  C3. The validation does not recognise every defective configuration. For the configuration
  \<^verbatim>\<open>null\<close>, which is JSON, reading \<^verbatim>\<open>settings\<close> throws a \<^verbatim>\<open>TypeError\<close>. For a configuration
  whose \<^verbatim>\<open>outputSelection\<close> holds \<^verbatim>\<open>null\<close> where the contracts of a file are expected, the
  test \<^verbatim>\<open>typeof fileConfig !== 'object'\<close> lets \<^verbatim>\<open>null\<close> pass, and \<^verbatim>\<open>Object.values\<close> throws a
  \<^verbatim>\<open>TypeError\<close>. In both cases \<^verbatim>\<open>getInputErrors\<close> returns nothing and \<^verbatim>\<open>compile\<close> throws,
  where a configuration with an array in the place of \<^verbatim>\<open>null\<close> gets the text of a
  formatted error.
\<close>

theorem null_in_configuration_throws:
  "exampleParseAll (showJson exampleConfigNullFile) = Some exampleConfigNullFile \<and>
   getInputErrors (exampleCollaborators\<lparr>JSON_parse := exampleParseAll\<rparr>) exampleConfigNullFile
     = Inl TypeError \<and>
   compile (exampleCollaborators\<lparr>JSON_parse := exampleParseAll\<rparr>) (showJson exampleConfigNullFile) None
     = Inl TypeError \<and>
   exampleParseAll ''null'' = Some JNull \<and>
   getInputErrors (exampleCollaborators\<lparr>JSON_parse := exampleParseAll\<rparr>) JNull = Inl TypeError \<and>
   compile (exampleCollaborators\<lparr>JSON_parse := exampleParseAll\<rparr>) ''null'' None = Inl TypeError \<and>
   compile (exampleCollaborators\<lparr>JSON_parse := exampleParseAll\<rparr>) (showJson exampleConfigBadSelection) None
     = Inr (showJson (formattedSolcError formMessage))"
  by code_simp

theorem null_in_configuration_throws_witness:
  "compile (exampleCollaborators\<lparr>JSON_parse := exampleParseAll\<rparr>) (showJson exampleConfigNullFile) None
     \<noteq> Inr (showJson (formattedSolcError formMessage)) \<and>
   compile (exampleCollaborators\<lparr>JSON_parse := exampleParseAll\<rparr>) ''null'' None
     \<noteq> Inr (showJson (formattedSolcError settingsMessage))"
  using null_in_configuration_throws by simp

text \<open>The first of the two, whatever the collaborators are.\<close>

lemma null_configuration_throws:
  "JSON_parse D s = Some JNull \<Longrightarrow> compile D s cb = Inl TypeError"
  by (simp add: compile_def getInputErrors_def)

end
